theory Spec2Isabelle
  imports Main
begin

section \<open>Text, cells and rows\<close>

text \<open>
  The script \<^verbatim>\<open>scripts/gerar_dados_cnes.py\<close> turns one CNES establishment table per
  state into a list of compact records. This theory embeds its transformation core:
  \<^verbatim>\<open>campo\<close> and \<^verbatim>\<open>processar_df\<close> with the two constant tables they read.

  A Python \<^verbatim>\<open>str\<close> is a \<^typ>\<open>string\<close> whose characters are the code points
  U+0000 to U+00FF, the range of the Latin-1 text the DATASUS tables hold; \<open>length\<close>
  counts code points, as Python's \<^verbatim>\<open>len\<close> does. The character predicates below are
  those of CPython restricted to that range.
\<close>

definition isspace :: "char \<Rightarrow> bool" where
  \<comment> \<open>\<^verbatim>\<open>str.isspace\<close>: TAB to CR, FS to US, space, NEL and the no-break space.\<close>
  "isspace c =
     (let n = (of_char c :: nat)
      in (9 \<le> n \<and> n \<le> 13) \<or> (28 \<le> n \<and> n \<le> 32) \<or> n = 133 \<or> n = 160)"

definition isdigit :: "char \<Rightarrow> bool" where
  \<comment> \<open>\<^verbatim>\<open>str.isdigit\<close>: the decimal digits and the superscripts two, three and one.\<close>
  "isdigit c =
     (let n = (of_char c :: nat)
      in (48 \<le> n \<and> n \<le> 57) \<or> n = 178 \<or> n = 179 \<or> n = 185)"

definition strip :: "string \<Rightarrow> string" where
  \<comment> \<open>\<^verbatim>\<open>s.strip()\<close>: whitespace removed from both ends.\<close>
  "strip s = dropWhile isspace (rev (dropWhile isspace (rev s)))"

definition zfill :: "nat \<Rightarrow> string \<Rightarrow> string" where
  \<comment> \<open>\<^verbatim>\<open>s.zfill(width)\<close>: zeros are inserted after a leading sign; a string that is
      already wide enough is returned as it is.\<close>
  "zfill width s =
     (if width \<le> length s then s
      else (case s of
              [] \<Rightarrow> replicate width (CHR ''0'')
            | c # rest \<Rightarrow>
                if c = CHR ''+'' \<or> c = CHR ''-''
                then c # replicate (width - length s) (CHR ''0'') @ rest
                else replicate (width - length s) (CHR ''0'') @ s))"

text \<open>
  A table cell is text or one of the two null values a pandas object column holds.
  Numeric cells do not occur in the embedding.
\<close>

datatype cell = PyNone | NaN | Str string

fun notna :: "cell \<Rightarrow> bool" where
  "notna PyNone = False"
| "notna NaN = False"
| "notna (Str s) = True"

fun py_str :: "cell \<Rightarrow> string" where
  "py_str PyNone = ''None''"
| "py_str NaN = ''nan''"
| "py_str (Str s) = s"

text \<open>A row is a pandas Series: a finite map from column label to cell.\<close>

type_synonym row = "string \<rightharpoonup> cell"

section \<open>Constant tables\<close>

definition GESTAO_SUS :: "string set" where
  "GESTAO_SUS = {''M'', ''E'', ''D''}"

definition TP_UNIDADE_MAP :: "(string \<times> string \<times> string) list" where
  "TP_UNIDADE_MAP =
    [(''01'', ''primaria'',   ''Posto de Sa'' @ [CHR 0xFA] @ ''de''),
     (''02'', ''primaria'',   ''Centro de Sa'' @ [CHR 0xFA] @ ''de / UBS''),
     (''04'', ''secundaria'', ''Policl'' @ [CHR 0xED] @ ''nica''),
     (''05'', ''terciaria'',  ''Hospital Geral''),
     (''06'', ''terciaria'',  ''Hospital Especializado''),
     (''07'', ''terciaria'',  ''Hospital Dia''),
     (''08'', ''secundaria'', ''Pronto-Socorro Geral''),
     (''15'', ''secundaria'', ''Unidade Mista''),
     (''20'', ''secundaria'', ''Pronto-Atendimento''),
     (''21'', ''secundaria'', ''UPA 24h''),
     (''22'', ''primaria'',   ''Consult'' @ [CHR 0xF3] @ ''rio Isolado''),
     (''32'', ''primaria'',   ''Cl'' @ [CHR 0xED] @ ''nica Especializada''),
     (''36'', ''secundaria'', ''Cl'' @ [CHR 0xED] @ ''nica/Centro de Especialidade''),
     (''39'', ''secundaria'', ''SADT / Diagnose e Terapia''),
     (''43'', ''primaria'',   ''Farm'' @ [CHR 0xE1] @ ''cia''),
     (''50'', ''primaria'',   ''Vigil'' @ [CHR 0xE2] @ ''ncia em Sa'' @ [CHR 0xFA] @ ''de''),
     (''61'', ''terciaria'',  ''Centro de Parto Normal''),
     (''62'', ''terciaria'',  ''Hospital Dia Isolado''),
     (''64'', ''secundaria'', ''Central de Regula'' @ [CHR 0xE7, CHR 0xE3] @ ''o''),
     (''65'', ''secundaria'', ''Pronto-Atendimento Especializado''),
     (''67'', ''primaria'',   ''Laborat'' @ [CHR 0xF3] @ ''rio de Sa'' @ [CHR 0xFA] @ ''de P''
                               @ [CHR 0xFA] @ ''blica''),
     (''69'', ''secundaria'', ''Hemocentro''),
     (''70'', ''primaria'',   ''CAPS''),
     (''71'', ''primaria'',   ''CASF''),
     (''72'', ''primaria'',   ''Sa'' @ [CHR 0xFA] @ ''de Ind'' @ [CHR 0xED] @ ''gena''),
     (''73'', ''secundaria'', ''Pronto-Socorro Geral''),
     (''74'', ''secundaria'', ''Pronto-Socorro Especializado''),
     (''75'', ''terciaria'',  ''Casa de Sa'' @ [CHR 0xFA] @ ''de''),
     (''76'', ''secundaria'', ''CEREST''),
     (''77'', ''primaria'',   ''Aten'' @ [CHR 0xE7, CHR 0xE3] @ ''o Domiciliar''),
     (''78'', ''primaria'',   ''Comunidade Terap'' @ [CHR 0xEA] @ ''utica''),
     (''79'', ''primaria'',   ''Oficina Ortop'' @ [CHR 0xE9] @ ''dica''),
     (''80'', ''secundaria'', ''Laborat'' @ [CHR 0xF3] @ ''rio de Sa'' @ [CHR 0xFA] @ ''de''),
     (''81'', ''secundaria'', ''Centro de Sa'' @ [CHR 0xFA] @ ''de Escola''),
     (''82'', ''secundaria'', ''Unidade M'' @ [CHR 0xF3] @ ''vel de Urg'' @ [CHR 0xEA]
                               @ ''ncia''),
     (''83'', ''primaria'',   ''Academia da Sa'' @ [CHR 0xFA] @ ''de''),
     (''84'', ''secundaria'', ''SAMU / Central de Regula'' @ [CHR 0xE7, CHR 0xE3]
                               @ ''o de Urg'' @ [CHR 0xEA] @ ''ncias''),
     (''85'', ''primaria'',   ''SAD - Servi'' @ [CHR 0xE7] @ ''o de Aten''
                               @ [CHR 0xE7, CHR 0xE3] @ ''o Domiciliar''),
     (''86'', ''primaria'',   ''Unidade de Aten'' @ [CHR 0xE7, CHR 0xE3]
                               @ ''o Psicossocial'')]"

definition dict_get :: "('k \<times> 'v) list \<Rightarrow> 'k \<Rightarrow> 'v \<Rightarrow> 'v" where
  \<comment> \<open>\<^verbatim>\<open>d.get(k, default)\<close> on a dictionary literal.\<close>
  "dict_get d k dflt = (case map_of d k of None \<Rightarrow> dflt | Some v \<Rightarrow> v)"

section \<open>Field resolution\<close>

text \<open>
  \<^verbatim>\<open>campo(row, candidatos, default)\<close>: the loop over the candidates is the recursion,
  \<^verbatim>\<open>c in row.index\<close> the presence of \<open>c\<close> in the map.
\<close>

fun campo :: "row \<Rightarrow> string list \<Rightarrow> string \<Rightarrow> string" where
  "campo row [] dflt = dflt"
| "campo row (c # candidatos) dflt =
     (case row c of
        None \<Rightarrow> campo row candidatos dflt
      | Some v \<Rightarrow>
          if notna v \<and> strip (py_str v) \<notin> {'''', ''nan'', ''None''}
          then strip (py_str v)
          else campo row candidatos dflt)"

section \<open>Row normalisation\<close>

record registro =
  cnes :: string
  nome :: string
  nivel :: string
  perfil :: string
  gestao :: string
  ibge6 :: string
  logradouro :: string
  bairro :: string
  cep :: string
  tel :: string

text \<open>
  \<open>processar_linha\<close> is the body of the loop over \<^verbatim>\<open>df.iterrows()\<close>: \<open>None\<close> is a
  \<^verbatim>\<open>continue\<close>, \<open>Some r\<close> the dictionary appended to \<^verbatim>\<open>registros\<close>.
  \<^verbatim>\<open>str.title\<close> maps some Latin-1 letters outside Latin-1, so it is the parameter
  \<open>title\<close>.
\<close>

definition processar_linha :: "(string \<Rightarrow> string) \<Rightarrow> row \<Rightarrow> registro option" where
  "processar_linha title row =
     (let cnes0 = campo row [''CO_UNIDADE'', ''CNES'', ''CO_CNES'', ''COUNIDADE''] ''''
      in if cnes0 = '''' then None
         else
           let cnes1 = zfill 7 cnes0;
               nome0 = campo row [''NO_FANTASIA'', ''NOFANTASIA''] '''';
               nome1 = (if nome0 = ''''
                        then campo row [''NO_RAZAO_SOCIAL'', ''NO_RAZAO_SOCIAL_'',
                                        ''NORAZAOSOCIAL''] ''''
                        else nome0)
           in if nome1 = '''' then None
              else
                let nome2 = title nome1;
                    ibge0 = campo row [''CO_MUNICIPIO_GESTOR'', ''CO_MUNICIPIO'',
                                       ''CO_MUN_GESTOR'', ''COMUNICIPIOGESTOR''] '''';
                    ibge1 = (if ibge0 \<noteq> '''' then zfill 6 ibge0 else '''');
                    tp0 = campo row [''TP_UNIDADE'', ''TP_UNIDADE_'', ''TPUNIDADE''] ''02'';
                    tp1 = zfill 2 tp0;
                    (nivel0, perfil0) =
                       dict_get TP_UNIDADE_MAP tp1
                         (''primaria'', ''Unidade de Sa'' @ [CHR 0xFA] @ ''de'');
                    g = campo row [''TP_GESTAO'', ''TP_GESTAO_'', ''TPGESTAO''] ''M'';
                    gestao0 = dict_get [(''M'', ''Municipal''), (''E'', ''Estadual''),
                                        (''D'', ''Municipal'')] g ''Municipal'';
                    logradouro0 = campo row [''NO_LOGRADOURO'', ''DS_LOGRADOURO'',
                                             ''NOLOGRADOURO''] '''';
                    numero = campo row [''NU_ENDERECO'', ''DS_NUMERO'', ''NUENDERECO''] '''';
                    endereco = (if numero \<noteq> ''''
                                then (if logradouro0 \<noteq> ''''
                                      then logradouro0 @ '', '' @ numero
                                      else numero)
                                else logradouro0);
                    bairro0 = campo row [''DS_BAIRRO'', ''NO_BAIRRO'', ''DSBAIRRO''] '''';
                    cep0 = campo row [''DS_CEP'', ''NU_CEP'', ''CO_CEP'', ''DSCEP''] '''';
                    cep1 = filter isdigit cep0;
                    tel0 = campo row [''NU_TELEFONE'', ''DS_TELEFONE'', ''NUTELEFONE''] '''';
                    tel1 = filter isdigit tel0
                in Some \<lparr>cnes = cnes1, nome = nome2, nivel = nivel0, perfil = perfil0,
                         gestao = gestao0, ibge6 = ibge1, logradouro = endereco,
                         bairro = bairro0, cep = cep1, tel = tel1\<rparr>)"

section \<open>Table processing\<close>

text \<open>
  A DataFrame is its column labels and its rows of cells, one cell per column. The
  embedding covers the frames whose labels are distinct once upper-cased (pandas gives
  a sub-frame, not a column, for a repeated label). \<^verbatim>\<open>str.upper\<close> is the parameter
  \<open>upper\<close>, for the reason \<open>title\<close> is one.

  \<open>filtro_sus\<close> is the first filter of \<^verbatim>\<open>processar_df\<close> (the \<^verbatim>\<open>next\<close> over the
  governance aliases and the \<^verbatim>\<open>isin\<close> mask), \<open>filtro_ativas\<close> the second (the
  \<^verbatim>\<open>for\<close> loop that stops at the first deactivation alias present), \<open>iterrows\<close> the
  rows handed to the loop body.
\<close>

record dataframe =
  columns :: "string list"
  dados :: "cell list list"

definition bem_formado :: "string list \<Rightarrow> cell list list \<Rightarrow> bool" where
  \<comment> \<open>The frames the embedding covers: distinct labels, rectangular data.\<close>
  "bem_formado cols rows =
     (distinct cols \<and> list_all (\<lambda>vals. length vals = length cols) rows)"

definition linha :: "string list \<Rightarrow> cell list \<Rightarrow> row" where
  "linha cols vals = map_of (zip cols vals)"

fun isin :: "cell option \<Rightarrow> string set \<Rightarrow> bool" where
  "isin (Some (Str s)) S = (s \<in> S)"
| "isin _ S = False"

fun isna :: "cell option \<Rightarrow> bool" where
  "isna (Some PyNone) = True"
| "isna (Some NaN) = True"
| "isna _ = False"

definition filtro_sus :: "dataframe \<Rightarrow> dataframe" where
  "filtro_sus df =
     (case find (\<lambda>c. c \<in> set (columns df)) [''TP_GESTAO'', ''TP_GESTAO_'', ''TPGESTAO''] of
        None \<Rightarrow> df
      | Some col_gestao \<Rightarrow>
          df\<lparr>dados := filter (\<lambda>vals. isin (linha (columns df) vals col_gestao) GESTAO_SUS)
                         (dados df)\<rparr>)"

fun filtro_ativas :: "string list \<Rightarrow> dataframe \<Rightarrow> dataframe" where
  "filtro_ativas [] df = df"
| "filtro_ativas (col # cols) df =
     (if col \<in> set (columns df)
      then df\<lparr>dados := filter (\<lambda>vals. isna (linha (columns df) vals col)
                                    \<or> isin (linha (columns df) vals col)
                                         {'''', ''0'', ''00000000''})
                          (dados df)\<rparr>
      else filtro_ativas cols df)"

definition iterrows :: "dataframe \<Rightarrow> row list" where
  "iterrows df = map (linha (columns df)) (dados df)"

definition processar_df ::
  "(string \<Rightarrow> string) \<Rightarrow> (string \<Rightarrow> string) \<Rightarrow> dataframe \<Rightarrow> string \<Rightarrow> registro list" where
  "processar_df upper title df uf =
     (let df1 = df\<lparr>columns := map upper (columns df)\<rparr>;
          df2 = filtro_sus df1;
          df3 = filtro_ativas [''DT_DESATIVACAO'', ''DT_DESATIVACAO_'', ''DTDESATIVACAO''] df2
      in List.map_filter (processar_linha title) (iterrows df3))"

text \<open>
  CPython's \<^verbatim>\<open>str.title\<close> and \<^verbatim>\<open>str.upper\<close> on ASCII text, to run the two
  functions on ASCII tables.
\<close>

definition ascii_upper :: "char \<Rightarrow> char" where
  "ascii_upper c =
     (case map_of (zip ''abcdefghijklmnopqrstuvwxyz'' ''ABCDEFGHIJKLMNOPQRSTUVWXYZ'') c of
        None \<Rightarrow> c
      | Some u \<Rightarrow> u)"

definition ascii_lower :: "char \<Rightarrow> char" where
  "ascii_lower c =
     (case map_of (zip ''ABCDEFGHIJKLMNOPQRSTUVWXYZ'' ''abcdefghijklmnopqrstuvwxyz'') c of
        None \<Rightarrow> c
      | Some l \<Rightarrow> l)"

definition ascii_cased :: "char \<Rightarrow> bool" where
  "ascii_cased c =
     (c \<in> set ''ABCDEFGHIJKLMNOPQRSTUVWXYZabcdefghijklmnopqrstuvwxyz'')"

fun title_from :: "bool \<Rightarrow> string \<Rightarrow> string" where
  \<comment> \<open>The flag is CPython's \<^verbatim>\<open>previous_is_cased\<close>.\<close>
  "title_from previous_is_cased [] = []"
| "title_from previous_is_cased (c # s) =
     (if previous_is_cased then ascii_lower c else ascii_upper c)
       # title_from (ascii_cased c) s"

definition title_ascii :: "string \<Rightarrow> string" where
  "title_ascii s = title_from False s"

definition upper_ascii :: "string \<Rightarrow> string" where
  "upper_ascii s = map ascii_upper s"

text \<open>
  \<^verbatim>\<open>str.title\<close> on Latin-1 text, as CPython computes it: a character is lower-cased
  after a cased character and title-cased otherwise. \<open>latin1_upper\<close> are the capital
  letters, \<open>latin1_small\<close> the small letters that have a capital in Latin-1; the
  feminine and masculine ordinal indicators, the micro sign, the sharp s and the y with
  diaeresis are cased too. The sharp s is title-cased to \<open>Ss\<close>. The capitals of the
  micro sign and of the y with diaeresis (U+039C, U+0178) are not Latin-1 code points:
  the model keeps these two letters, so a name with one of them at the start of a word
  is outside what the embedding represents.
\<close>

definition latin1_upper :: "char \<Rightarrow> bool" where
  "latin1_upper c =
     (let n = (of_char c :: nat)
      in (65 \<le> n \<and> n \<le> 90) \<or> (192 \<le> n \<and> n \<le> 214) \<or> (216 \<le> n \<and> n \<le> 222))"

definition latin1_small :: "char \<Rightarrow> bool" where
  "latin1_small c =
     (let n = (of_char c :: nat)
      in (97 \<le> n \<and> n \<le> 122) \<or> (224 \<le> n \<and> n \<le> 246) \<or> (248 \<le> n \<and> n \<le> 254))"

definition latin1_cased :: "char \<Rightarrow> bool" where
  "latin1_cased c =
     (latin1_upper c \<or> latin1_small c
      \<or> (of_char c :: nat) \<in> {170, 181, 186, 223, 255})"

definition latin1_lower :: "char \<Rightarrow> char" where
  "latin1_lower c = (if latin1_upper c then char_of (of_char c + 32 :: nat) else c)"

definition latin1_totitle :: "char \<Rightarrow> string" where
  "latin1_totitle c =
     (if (of_char c :: nat) = 223 then ''Ss''
      else if latin1_small c then [char_of (of_char c - 32 :: nat)]
      else [c])"

fun title_latin1_from :: "bool \<Rightarrow> string \<Rightarrow> string" where
  "title_latin1_from previous_is_cased [] = []"
| "title_latin1_from previous_is_cased (c # s) =
     (if previous_is_cased then [latin1_lower c] else latin1_totitle c)
       @ title_latin1_from (latin1_cased c) s"

definition title_latin1 :: "string \<Rightarrow> string" where
  "title_latin1 s = title_latin1_from False s"

text \<open>What \<open>title_latin1_from\<close> writes for one character.\<close>

definition saida :: "bool \<Rightarrow> char \<Rightarrow> string" where
  "saida p c = (if p then [latin1_lower c] else latin1_totitle c)"

section \<open>Notions used to state the properties\<close>

text \<open>
  The specification's field resolver: a candidate qualifies when it is present and its
  trimmed string value is none of the null sentinels; the first qualifying candidate
  gives the result, the default is returned when there is none.
\<close>

definition qualifica :: "row \<Rightarrow> string \<Rightarrow> bool" where
  "qualifica row c =
     (case row c of
        None \<Rightarrow> False
      | Some v \<Rightarrow> strip (py_str v) \<notin> {'''', ''nan'', ''None''})"

definition resolve_spec :: "row \<Rightarrow> string list \<Rightarrow> string \<Rightarrow> string" where
  "resolve_spec row candidatos dflt =
     (case find (qualifica row) candidatos of
        None \<Rightarrow> dflt
      | Some c \<Rightarrow> (case row c of None \<Rightarrow> dflt | Some v \<Rightarrow> strip (py_str v)))"

text \<open>The specification's left padding with zeros, which knows no sign.\<close>

definition left_pad :: "nat \<Rightarrow> string \<Rightarrow> string" where
  "left_pad width s = replicate (width - length s) (CHR ''0'') @ s"

text \<open>The record the loop body appends when neither gate skips the row.\<close>

definition registro_de :: "(string \<Rightarrow> string) \<Rightarrow> row \<Rightarrow> registro" where
  "registro_de title row =
     \<lparr>cnes = zfill 7 (campo row [''CO_UNIDADE'', ''CNES'', ''CO_CNES'', ''COUNIDADE''] ''''),
      nome = title (if campo row [''NO_FANTASIA'', ''NOFANTASIA''] '''' = ''''
                    then campo row [''NO_RAZAO_SOCIAL'', ''NO_RAZAO_SOCIAL_'',
                                    ''NORAZAOSOCIAL''] ''''
                    else campo row [''NO_FANTASIA'', ''NOFANTASIA''] ''''),
      nivel = fst (dict_get TP_UNIDADE_MAP
                (zfill 2 (campo row [''TP_UNIDADE'', ''TP_UNIDADE_'', ''TPUNIDADE''] ''02''))
                (''primaria'', ''Unidade de Sa'' @ [CHR 0xFA] @ ''de'')),
      perfil = snd (dict_get TP_UNIDADE_MAP
                (zfill 2 (campo row [''TP_UNIDADE'', ''TP_UNIDADE_'', ''TPUNIDADE''] ''02''))
                (''primaria'', ''Unidade de Sa'' @ [CHR 0xFA] @ ''de'')),
      gestao = dict_get [(''M'', ''Municipal''), (''E'', ''Estadual''),
                         (''D'', ''Municipal'')]
                 (campo row [''TP_GESTAO'', ''TP_GESTAO_'', ''TPGESTAO''] ''M'')
                 ''Municipal'',
      ibge6 = (if campo row [''CO_MUNICIPIO_GESTOR'', ''CO_MUNICIPIO'',
                             ''CO_MUN_GESTOR'', ''COMUNICIPIOGESTOR''] '''' \<noteq> ''''
               then zfill 6 (campo row [''CO_MUNICIPIO_GESTOR'', ''CO_MUNICIPIO'',
                                        ''CO_MUN_GESTOR'', ''COMUNICIPIOGESTOR''] '''')
               else ''''),
      logradouro =
         (if campo row [''NU_ENDERECO'', ''DS_NUMERO'', ''NUENDERECO''] '''' \<noteq> ''''
          then (if campo row [''NO_LOGRADOURO'', ''DS_LOGRADOURO'', ''NOLOGRADOURO''] ''''
                    \<noteq> ''''
                then campo row [''NO_LOGRADOURO'', ''DS_LOGRADOURO'', ''NOLOGRADOURO''] ''''
                      @ '', '' @ campo row [''NU_ENDERECO'', ''DS_NUMERO'', ''NUENDERECO''] ''''
                else campo row [''NU_ENDERECO'', ''DS_NUMERO'', ''NUENDERECO''] '''')
          else campo row [''NO_LOGRADOURO'', ''DS_LOGRADOURO'', ''NOLOGRADOURO''] ''''),
      bairro = campo row [''DS_BAIRRO'', ''NO_BAIRRO'', ''DSBAIRRO''] '''',
      cep = filter isdigit (campo row [''DS_CEP'', ''NU_CEP'', ''CO_CEP'', ''DSCEP''] ''''),
      tel = filter isdigit
              (campo row [''NU_TELEFONE'', ''DS_TELEFONE'', ''NUTELEFONE''] '''')\<rparr>"

text \<open>
  A text value that field resolution returns unchanged: no whitespace at either end,
  not empty and none of the sentinels.
\<close>

definition limpo :: "string \<Rightarrow> bool" where
  "limpo s = (s \<noteq> [] \<and> \<not> isspace (hd s) \<and> \<not> isspace (last s)
              \<and> s \<noteq> ''nan'' \<and> s \<noteq> ''None'')"

text \<open>
  The raw representation of an emitted record: each text field under the first alias
  of its column, the facility-type and governance codes as the source row had them
  (the record keeps only what they were mapped to).
\<close>

definition reapresentar :: "row \<Rightarrow> registro \<Rightarrow> row" where
  "reapresentar row r =
     (\<lambda>c. if c \<in> {''TP_UNIDADE'', ''TP_UNIDADE_'', ''TPUNIDADE'',
                    ''TP_GESTAO'', ''TP_GESTAO_'', ''TPGESTAO''}
          then row c
          else [''CO_UNIDADE'' \<mapsto> Str (cnes r), ''NO_FANTASIA'' \<mapsto> Str (nome r),
                ''CO_MUNICIPIO_GESTOR'' \<mapsto> Str (ibge6 r),
                ''NO_LOGRADOURO'' \<mapsto> Str (logradouro r), ''DS_BAIRRO'' \<mapsto> Str (bairro r),
                ''DS_CEP'' \<mapsto> Str (cep r), ''NU_TELEFONE'' \<mapsto> Str (tel r)] c)"

text \<open>A table whose first row has an eight-character facility code and a superscript
  two in its postal code, and whose second row has a facility code with a leading
  sign.\<close>

definition tabela_c3 :: dataframe where
  "tabela_c3 =
     \<lparr>columns = [''co_unidade'', ''no_fantasia'', ''co_municipio_gestor'', ''ds_cep''],
      dados = [[Str ''12345678'', Str ''ubs'', Str ''330455'', Str (''20.000-000'' @ [CHR 0xB2])],
               [Str ''-12'', Str ''upa'', NaN, PyNone]]\<rparr>"

text \<open>
  Two rows and the records they are normalised to: one whose
  commercial name is the word \<open>NONE\<close>, one with a legal name only.
\<close>

definition linha_none :: row where
  "linha_none = [''CO_UNIDADE'' \<mapsto> Str ''1234567'', ''NO_FANTASIA'' \<mapsto> Str ''NONE'']"

definition linha_ubs :: row where
  "linha_ubs = [''CNES'' \<mapsto> Str ''2269'', ''NO_RAZAO_SOCIAL'' \<mapsto> Str '' ubs centro '',
                ''TP_UNIDADE'' \<mapsto> Str ''5'', ''DS_CEP'' \<mapsto> Str ''01310-100'']"

definition registro_none :: registro where
  "registro_none =
     \<lparr>cnes = ''1234567'', nome = ''None'', nivel = ''primaria'',
      perfil = ''Centro de Sa'' @ [CHR 0xFA] @ ''de / UBS'', gestao = ''Municipal'',
      ibge6 = '''', logradouro = '''', bairro = '''', cep = '''', tel = ''''\<rparr>"

definition registro_ubs :: registro where
  "registro_ubs =
     \<lparr>cnes = ''0002269'', nome = ''Ubs Centro'', nivel = ''terciaria'',
      perfil = ''Hospital Geral'', gestao = ''Municipal'',
      ibge6 = '''', logradouro = '''', bairro = '''', cep = ''01310100'', tel = ''''\<rparr>"

section \<open>Field resolution: properties\<close>

lemma strip_None: "strip ''None'' = ''None''"
  by (simp add: strip_def isspace_def)

lemma strip_nan: "strip ''nan'' = ''nan''"
  by (simp add: strip_def isspace_def)

lemma strip_empty: "strip '''' = ''''"
  by (simp add: strip_def)

lemma notna_subsumed: "\<not> notna v \<Longrightarrow> strip (py_str v) \<in> {'''', ''nan'', ''None''}"
  by (cases v) (simp_all add: strip_None strip_nan)

lemma campo_step:
  "campo row (c # cs) d =
     (if qualifica row c then (case row c of None \<Rightarrow> d | Some v \<Rightarrow> strip (py_str v))
      else campo row cs d)"
  using notna_subsumed by (auto simp: qualifica_def split: option.splits)

lemma campo_resolve_spec: "campo row cs d = resolve_spec row cs d"
proof (induction cs)
  case Nil
  show ?case by (simp add: resolve_spec_def)
next
  case (Cons c cs)
  show ?case
  proof (cases "qualifica row c")
    case True
    then show ?thesis by (simp only: campo_step) (simp add: resolve_spec_def)
  next
    case False
    then show ?thesis using Cons.IH by (simp only: campo_step) (simp add: resolve_spec_def)
  qed
qed

text \<open>
  C2. \<open>campo\<close> returns the trimmed string value of the first candidate, in order, that
  is present in the row and whose trimmed value is not one of \<open>''''\<close>, \<open>''nan''\<close>,
  \<open>''None''\<close>, and the default when no candidate qualifies (the null cells render as
  \<open>''None''\<close> and \<open>''nan''\<close>, so the \<open>notna\<close> test excludes nothing more). With
  candidates \<open>[A, B, C]\<close>, \<open>A\<close> absent, null or empty and \<open>B\<close> holding \<open>''x''\<close>, the
  result is \<open>''x''\<close> whatever \<open>C\<close> holds.
\<close>

theorem campo_first_qualifying:
  "campo row candidatos dflt = resolve_spec row candidatos dflt \<and>
   ((row A = None \<or> row A = Some PyNone \<or> row A = Some NaN \<or> row A = Some (Str ''''))
      \<longrightarrow> row B = Some (Str ''x'') \<longrightarrow> campo row [A, B, C] dflt = ''x'')"
proof -
  have "campo row [A, B, C] dflt = ''x''"
    if a: "row A = None \<or> row A = Some PyNone \<or> row A = Some NaN \<or> row A = Some (Str '''')"
      and b: "row B = Some (Str ''x'')"
  proof -
    have x: "strip ''x'' = ''x''" by (simp add: strip_def isspace_def)
    have "\<not> qualifica row A" using a strip_empty strip_None strip_nan
      by (auto simp: qualifica_def)
    moreover have "qualifica row B" using b by (simp add: qualifica_def x)
    ultimately show ?thesis using b by (simp only: campo_step) (simp add: x)
  qed
  then show ?thesis using campo_resolve_spec by blast
qed

theorem campo_first_qualifying_witness:
  "campo [''A'' \<mapsto> Str '''', ''B'' \<mapsto> Str ''x'', ''C'' \<mapsto> Str ''y''] [''A'', ''B'', ''C''] ''d''
     = ''x''"
proof -
  let ?row = "[''A'' \<mapsto> Str '''', ''B'' \<mapsto> Str ''x'', ''C'' \<mapsto> Str ''y'']"
  have a: "?row ''A'' = Some (Str '''')" by simp
  have b: "?row ''B'' = Some (Str ''x'')" by simp
  from campo_first_qualifying [of ?row "[]" "''d''" "''A''" "''B''" "''C''"] a b
  show ?thesis by blast
qed

section \<open>Row normalisation: properties\<close>

lemma processar_linha_unfold:
  "processar_linha title row =
     (if campo row [''CO_UNIDADE'', ''CNES'', ''CO_CNES'', ''COUNIDADE''] '''' = '''' then None
      else if (if campo row [''NO_FANTASIA'', ''NOFANTASIA''] '''' = ''''
               then campo row [''NO_RAZAO_SOCIAL'', ''NO_RAZAO_SOCIAL_'', ''NORAZAOSOCIAL''] ''''
               else campo row [''NO_FANTASIA'', ''NOFANTASIA''] '''') = '''' then None
      else Some (registro_de title row))"
  unfolding processar_linha_def registro_de_def Let_def case_prod_beta
  by (rule refl)

lemma processar_linha_None:
  "(processar_linha title row = None) =
   (campo row [''CO_UNIDADE'', ''CNES'', ''CO_CNES'', ''COUNIDADE''] '''' = '''' \<or>
    (campo row [''NO_FANTASIA'', ''NOFANTASIA''] '''' = '''' \<and>
     campo row [''NO_RAZAO_SOCIAL'', ''NO_RAZAO_SOCIAL_'', ''NORAZAOSOCIAL''] '''' = ''''))"
  by (simp only: processar_linha_unfold split: if_split) blast

lemma processar_linha_Some:
  assumes "processar_linha title row = Some r"
  shows "r = registro_de title row"
    and "campo row [''CO_UNIDADE'', ''CNES'', ''CO_CNES'', ''COUNIDADE''] '''' \<noteq> ''''"
proof -
  from assms have "processar_linha title row \<noteq> None" by simp
  then show "campo row [''CO_UNIDADE'', ''CNES'', ''CO_CNES'', ''COUNIDADE''] '''' \<noteq> ''''"
    by (simp only: processar_linha_None) blast
  from assms show "r = registro_de title row"
    by (simp only: processar_linha_unfold split: if_splits) (simp_all only: option.inject option.distinct)
qed

lemma map_filter_set:
  "set (List.map_filter f xs) = {y. \<exists>x \<in> set xs. f x = Some y}"
  by (induction xs) (auto split: option.splits)

lemma map_filter_length:
  "length (List.map_filter f xs) = length (filter (\<lambda>x. f x \<noteq> None) xs)"
  by (induction xs) (auto split: option.splits)

text \<open>
  C1. A row is skipped exactly when its facility code, resolved over
  \<open>CO_UNIDADE\<close>, \<open>CNES\<close>, \<open>CO_CNES\<close>, \<open>COUNIDADE\<close>, is empty, or when both the
  commercial-name aliases and the legal-name aliases resolve to the empty string. The
  commercial name is tried first: an emitted record carries it whenever it is not empty,
  and the legal name otherwise. A skipped row is dropped without an error: the records
  of the table are exactly the results of the rows that are not skipped, one for each.
\<close>

theorem skip_exactly_when_required_field_missing:
  "(processar_linha title row = None) =
     (campo row [''CO_UNIDADE'', ''CNES'', ''CO_CNES'', ''COUNIDADE''] '''' = '''' \<or>
      (campo row [''NO_FANTASIA'', ''NOFANTASIA''] '''' = '''' \<and>
       campo row [''NO_RAZAO_SOCIAL'', ''NO_RAZAO_SOCIAL_'', ''NORAZAOSOCIAL''] '''' = ''''))
   \<and> (processar_linha title row = Some r \<longrightarrow>
        nome r = (if campo row [''NO_FANTASIA'', ''NOFANTASIA''] '''' \<noteq> ''''
                  then title (campo row [''NO_FANTASIA'', ''NOFANTASIA''] '''')
                  else title (campo row [''NO_RAZAO_SOCIAL'', ''NO_RAZAO_SOCIAL_'',
                                         ''NORAZAOSOCIAL''] '''')))
   \<and> set (processar_df upper title df uf) =
        {r. \<exists>row \<in> set (iterrows
                (filtro_ativas [''DT_DESATIVACAO'', ''DT_DESATIVACAO_'', ''DTDESATIVACAO'']
                   (filtro_sus (df\<lparr>columns := map upper (columns df)\<rparr>)))).
              processar_linha title row = Some r}
   \<and> length (processar_df upper title df uf) =
        length (filter (\<lambda>row. processar_linha title row \<noteq> None)
          (iterrows
             (filtro_ativas [''DT_DESATIVACAO'', ''DT_DESATIVACAO_'', ''DTDESATIVACAO'']
                (filtro_sus (df\<lparr>columns := map upper (columns df)\<rparr>)))))"
proof -
  have n: "nome r = (if campo row [''NO_FANTASIA'', ''NOFANTASIA''] '''' \<noteq> ''''
                  then title (campo row [''NO_FANTASIA'', ''NOFANTASIA''] '''')
                  else title (campo row [''NO_RAZAO_SOCIAL'', ''NO_RAZAO_SOCIAL_'',
                                         ''NORAZAOSOCIAL''] ''''))"
    if "processar_linha title row = Some r"
    using processar_linha_Some(1) [OF that] by (simp add: registro_de_def del: campo.simps)
  show ?thesis
    using n processar_linha_None [of title row]
    by (simp only: processar_df_def Let_def map_filter_set map_filter_length) blast
qed

theorem skip_exactly_when_required_field_missing_witness:
  "processar_linha title_ascii [''NO_FANTASIA'' \<mapsto> Str ''ubs centro''] = None
   \<and> processar_linha title_ascii [''CNES'' \<mapsto> Str ''12'', ''NO_FANTASIA'' \<mapsto> NaN,
                                    ''NORAZAOSOCIAL'' \<mapsto> Str '' ''] = None"
proof -
  have a: "campo [''NO_FANTASIA'' \<mapsto> Str ''ubs centro'']
             [''CO_UNIDADE'', ''CNES'', ''CO_CNES'', ''COUNIDADE''] '''' = ''''"
    by simp
  have b: "campo [''CNES'' \<mapsto> Str ''12'', ''NO_FANTASIA'' \<mapsto> NaN, ''NORAZAOSOCIAL'' \<mapsto> Str '' '']
             [''NO_FANTASIA'', ''NOFANTASIA''] '''' = ''''"
    by simp
  have c: "campo [''CNES'' \<mapsto> Str ''12'', ''NO_FANTASIA'' \<mapsto> NaN, ''NORAZAOSOCIAL'' \<mapsto> Str '' '']
             [''NO_RAZAO_SOCIAL'', ''NO_RAZAO_SOCIAL_'', ''NORAZAOSOCIAL''] '''' = ''''"
    by (simp add: strip_def isspace_def)
  from skip_exactly_when_required_field_missing
         [of title_ascii "[''NO_FANTASIA'' \<mapsto> Str ''ubs centro'']"] a
  have 1: "processar_linha title_ascii [''NO_FANTASIA'' \<mapsto> Str ''ubs centro''] = None"
    by blast
  from skip_exactly_when_required_field_missing
         [of title_ascii "[''CNES'' \<mapsto> Str ''12'', ''NO_FANTASIA'' \<mapsto> NaN,
                           ''NORAZAOSOCIAL'' \<mapsto> Str '' '']"] b c
  have 2: "processar_linha title_ascii [''CNES'' \<mapsto> Str ''12'', ''NO_FANTASIA'' \<mapsto> NaN,
                                    ''NORAZAOSOCIAL'' \<mapsto> Str '' ''] = None"
    by blast
  from 1 2 show ?thesis by (rule conjI)
qed

text \<open>
  C8. The address of an emitted record is \<open>street, number\<close> when both resolve to a
  non-empty value, the number alone when only the number does, the street alone when
  only the street does, and the empty string when neither does.
\<close>

theorem address_composition:
  assumes "processar_linha title row = Some r"
  shows "logradouro r =
     (let street = campo row [''NO_LOGRADOURO'', ''DS_LOGRADOURO'', ''NOLOGRADOURO''] '''';
          number = campo row [''NU_ENDERECO'', ''DS_NUMERO'', ''NUENDERECO''] ''''
      in if street \<noteq> '''' \<and> number \<noteq> '''' then street @ '', '' @ number
         else if number \<noteq> '''' then number
         else if street \<noteq> '''' then street
         else '''')"
  using processar_linha_Some(1) [OF assms]
  by (simp add: registro_de_def Let_def del: campo.simps)

lemma linha_exemplo_Some:
  "processar_linha title_ascii
     [''CNES'' \<mapsto> Str ''2269'', ''NO_FANTASIA'' \<mapsto> Str ''ubs'',
      ''NO_LOGRADOURO'' \<mapsto> Str ''Av. Brasil'', ''NU_ENDERECO'' \<mapsto> Str ''100''] \<noteq> None"
  by (simp only: processar_linha_None) (simp add: strip_def isspace_def)

theorem address_composition_witness:
  "logradouro (the (processar_linha title_ascii
     [''CNES'' \<mapsto> Str ''2269'', ''NO_FANTASIA'' \<mapsto> Str ''ubs'',
      ''NO_LOGRADOURO'' \<mapsto> Str ''Av. Brasil'', ''NU_ENDERECO'' \<mapsto> Str ''100''])) = ''Av. Brasil, 100''"
proof -
  let ?row = "[''CNES'' \<mapsto> Str ''2269'', ''NO_FANTASIA'' \<mapsto> Str ''ubs'',
      ''NO_LOGRADOURO'' \<mapsto> Str ''Av. Brasil'', ''NU_ENDERECO'' \<mapsto> Str ''100'']"
  from linha_exemplo_Some obtain r where r: "processar_linha title_ascii ?row = Some r"
    by blast
  from address_composition [OF r] have "logradouro r = ''Av. Brasil, 100''"
    by (simp add: strip_def isspace_def)
  with r show ?thesis by simp
qed

text \<open>
  C10. The governance label of an emitted record is \<open>Estadual\<close> exactly when the
  resolved governance code is \<open>E\<close>, and \<open>Municipal\<close> for every other code; a row
  without any governance column resolves to the code \<open>M\<close>. The code \<open>D\<close> passes the
  affiliation filter and is labelled \<open>Municipal\<close>.
\<close>

theorem gestao_label:
  assumes "processar_linha title row = Some r"
  shows "(gestao r = ''Estadual'') =
           (campo row [''TP_GESTAO'', ''TP_GESTAO_'', ''TPGESTAO''] ''M'' = ''E'')
       \<and> (campo row [''TP_GESTAO'', ''TP_GESTAO_'', ''TPGESTAO''] ''M'' \<noteq> ''E''
            \<longrightarrow> gestao r = ''Municipal'')
       \<and> ((\<forall>c \<in> set [''TP_GESTAO'', ''TP_GESTAO_'', ''TPGESTAO'']. row c = None)
            \<longrightarrow> campo row [''TP_GESTAO'', ''TP_GESTAO_'', ''TPGESTAO''] ''M'' = ''M'')
       \<and> (campo row [''TP_GESTAO'', ''TP_GESTAO_'', ''TPGESTAO''] ''M'' = ''D''
            \<longrightarrow> gestao r = ''Municipal'')
       \<and> isin (Some (Str ''D'')) GESTAO_SUS"
proof -
  have g: "gestao r = dict_get [(''M'', ''Municipal''), (''E'', ''Estadual''),
                         (''D'', ''Municipal'')]
                 (campo row [''TP_GESTAO'', ''TP_GESTAO_'', ''TPGESTAO''] ''M'')
                 ''Municipal''"
    using processar_linha_Some(1) [OF assms] by (simp add: registro_de_def del: campo.simps)
  have d: "dict_get [(''M'', ''Municipal''), (''E'', ''Estadual''), (''D'', ''Municipal'')]
             k ''Municipal'' = (if k = ''E'' then ''Estadual'' else ''Municipal'')" for k
    by (simp add: dict_get_def)
  have a: "(\<forall>c \<in> set [''TP_GESTAO'', ''TP_GESTAO_'', ''TPGESTAO'']. row c = None)
            \<longrightarrow> campo row [''TP_GESTAO'', ''TP_GESTAO_'', ''TPGESTAO''] ''M'' = ''M''"
    by simp
  have s: "isin (Some (Str ''D'')) GESTAO_SUS" by (simp add: GESTAO_SUS_def)
  show ?thesis unfolding g d using a s by (simp del: campo.simps)
qed

lemma linha_estadual_Some:
  "processar_linha title_ascii
     [''CNES'' \<mapsto> Str ''2269'', ''NO_FANTASIA'' \<mapsto> Str ''ubs'', ''TP_GESTAO'' \<mapsto> Str ''E'']
     \<noteq> None"
  by (simp only: processar_linha_None) (simp add: strip_def isspace_def)

theorem gestao_label_witness:
  "gestao (the (processar_linha title_ascii
     [''CNES'' \<mapsto> Str ''2269'', ''NO_FANTASIA'' \<mapsto> Str ''ubs'', ''TP_GESTAO'' \<mapsto> Str ''E'']))
     = ''Estadual''"
proof -
  let ?row = "[''CNES'' \<mapsto> Str ''2269'', ''NO_FANTASIA'' \<mapsto> Str ''ubs'',
               ''TP_GESTAO'' \<mapsto> Str ''E'']"
  from linha_estadual_Some obtain r where r: "processar_linha title_ascii ?row = Some r"
    by blast
  have "campo ?row [''TP_GESTAO'', ''TP_GESTAO_'', ''TPGESTAO''] ''M'' = ''E''"
    by (simp add: strip_def isspace_def)
  with gestao_label [OF r] have "gestao r = ''Estadual''" by blast
  with r show ?thesis by simp
qed

lemma zfill_ge: "width \<le> length s \<Longrightarrow> zfill width s = s"
  by (simp add: zfill_def)

lemma TP_UNIDADE_MAP_zfill_left_pad:
  "map_of TP_UNIDADE_MAP (zfill 2 s) = map_of TP_UNIDADE_MAP (left_pad 2 s)"
proof (cases "2 \<le> length s")
  case True
  then show ?thesis by (simp add: zfill_def left_pad_def)
next
  case False
  show ?thesis
  proof (cases s)
    case Nil
    then show ?thesis by (simp add: zfill_def left_pad_def numeral_2_eq_2)
  next
    case (Cons c rest)
    with False have rest: "rest = []" by (cases rest) simp_all
    show ?thesis
    proof (cases "c = CHR ''+'' \<or> c = CHR ''-''")
      case True
      then show ?thesis using Cons rest
        by (auto simp: zfill_def left_pad_def TP_UNIDADE_MAP_def)
    next
      case False
      then show ?thesis using Cons rest by (simp add: zfill_def left_pad_def)
    qed
  qed
qed

lemma dict_get_zfill_left_pad:
  "dict_get TP_UNIDADE_MAP (zfill 2 s) d = dict_get TP_UNIDADE_MAP (left_pad 2 s) d"
  by (simp only: dict_get_def TP_UNIDADE_MAP_zfill_left_pad)

lemma dict_get_02:
  "dict_get TP_UNIDADE_MAP ''02'' d = (''primaria'', ''Centro de Sa'' @ [CHR 0xFA] @ ''de / UBS'')"
  by (simp add: dict_get_def TP_UNIDADE_MAP_def)

lemma campo_all_absent: "\<forall>c \<in> set cs. row c = None \<Longrightarrow> campo row cs d = d"
  by (induction cs) simp_all

text \<open>
  C7. The resolved facility-type code, left-padded with zeros to two characters, is
  looked up in \<open>TP_UNIDADE_MAP\<close> (the sign rule of \<open>zfill\<close> changes no lookup: a
  one-character sign is in the table under neither padding). A code that is not in the
  table gives the generic pair \<open>primaria\<close>, \<open>Unidade de Saude\<close>; a row with none of
  the facility-type columns resolves to the code \<open>02\<close> and gives \<open>primaria\<close>,
  \<open>Centro de Saude / UBS\<close> (both labels with an acute accent on the u).
\<close>

theorem facility_type_classification:
  assumes "processar_linha title row = Some r"
  shows "(nivel r, perfil r) =
           dict_get TP_UNIDADE_MAP
             (left_pad 2 (campo row [''TP_UNIDADE'', ''TP_UNIDADE_'', ''TPUNIDADE''] ''02''))
             (''primaria'', ''Unidade de Sa'' @ [CHR 0xFA] @ ''de'')
       \<and> (left_pad 2 (campo row [''TP_UNIDADE'', ''TP_UNIDADE_'', ''TPUNIDADE''] ''02'')
             \<notin> fst ` set TP_UNIDADE_MAP
           \<longrightarrow> nivel r = ''primaria'' \<and> perfil r = ''Unidade de Sa'' @ [CHR 0xFA] @ ''de'')
       \<and> ((\<forall>c \<in> set [''TP_UNIDADE'', ''TP_UNIDADE_'', ''TPUNIDADE'']. row c = None)
           \<longrightarrow> nivel r = ''primaria''
               \<and> perfil r = ''Centro de Sa'' @ [CHR 0xFA] @ ''de / UBS'')"
proof -
  let ?tp = "campo row [''TP_UNIDADE'', ''TP_UNIDADE_'', ''TPUNIDADE''] ''02''"
  let ?d = "(''primaria'', ''Unidade de Sa'' @ [CHR 0xFA] @ ''de'')"
  have "(nivel r, perfil r) = dict_get TP_UNIDADE_MAP (zfill 2 ?tp) ?d"
    using processar_linha_Some(1) [OF assms] by (simp add: registro_de_def del: campo.simps)
  then have 1: "(nivel r, perfil r) = dict_get TP_UNIDADE_MAP (left_pad 2 ?tp) ?d"
    by (simp only: dict_get_zfill_left_pad)
  have 2: "nivel r = ''primaria'' \<and> perfil r = ''Unidade de Sa'' @ [CHR 0xFA] @ ''de''"
    if "left_pad 2 ?tp \<notin> fst ` set TP_UNIDADE_MAP"
  proof -
    from that have "map_of TP_UNIDADE_MAP (left_pad 2 ?tp) = None"
      using map_of_eq_None_iff [of TP_UNIDADE_MAP "left_pad 2 ?tp"] by blast
    with 1 have "(nivel r, perfil r) = ?d" by (simp only: dict_get_def option.case)
    then show ?thesis by simp
  qed
  have 3: "nivel r = ''primaria'' \<and> perfil r = ''Centro de Sa'' @ [CHR 0xFA] @ ''de / UBS''"
    if "\<forall>c \<in> set [''TP_UNIDADE'', ''TP_UNIDADE_'', ''TPUNIDADE'']. row c = None"
  proof -
    have "?tp = ''02''" using that by (rule campo_all_absent)
    moreover have "left_pad 2 ''02'' = ''02''" by (simp add: left_pad_def)
    ultimately have "(nivel r, perfil r) = dict_get TP_UNIDADE_MAP ''02'' ?d"
      using 1 by simp
    then show ?thesis by (simp only: dict_get_02) simp
  qed
  from 1 2 3 show ?thesis by blast
qed

lemma linha_tipo_Some:
  "processar_linha title_ascii
     [''CNES'' \<mapsto> Str ''2269'', ''NO_FANTASIA'' \<mapsto> Str ''ubs'', ''TP_UNIDADE'' \<mapsto> Str ''5'']
     \<noteq> None"
  by (simp only: processar_linha_None) (simp add: strip_def isspace_def)

theorem facility_type_classification_witness:
  "(let r = the (processar_linha title_ascii
       [''CNES'' \<mapsto> Str ''2269'', ''NO_FANTASIA'' \<mapsto> Str ''ubs'', ''TP_UNIDADE'' \<mapsto> Str ''5''])
    in (nivel r, perfil r)) = (''terciaria'', ''Hospital Geral'')"
proof -
  let ?row = "[''CNES'' \<mapsto> Str ''2269'', ''NO_FANTASIA'' \<mapsto> Str ''ubs'',
               ''TP_UNIDADE'' \<mapsto> Str ''5'']"
  from linha_tipo_Some obtain r where r: "processar_linha title_ascii ?row = Some r"
    by blast
  have tp: "left_pad 2 (campo ?row [''TP_UNIDADE'', ''TP_UNIDADE_'', ''TPUNIDADE''] ''02'') = ''05''"
    by (simp add: strip_def isspace_def left_pad_def)
  have "dict_get TP_UNIDADE_MAP ''05'' (''primaria'', ''Unidade de Sa'' @ [CHR 0xFA] @ ''de'')
          = (''terciaria'', ''Hospital Geral'')"
    by (simp add: dict_get_def TP_UNIDADE_MAP_def)
  with facility_type_classification [OF r] tp
  have "(nivel r, perfil r) = (''terciaria'', ''Hospital Geral'')" by simp
  with r show ?thesis by simp
qed

text \<open>
  C6, as stated, fails: \<open>campo\<close> knows three sentinels only, so a cell holding the
  string \<open>0\<close> is returned as a value where an absent column gives the default, and a
  row whose four facility-code aliases all hold \<open>0\<close> is not skipped.
\<close>

theorem string_zero_counterexample:
  "campo [''A'' \<mapsto> Str ''0''] [''A'', ''B''] ''d'' = ''0''
   \<and> campo Map.empty [''A'', ''B''] ''d'' = ''d''
   \<and> processar_linha title_ascii
        [''CO_UNIDADE'' \<mapsto> Str ''0'', ''CNES'' \<mapsto> Str ''0'', ''CO_CNES'' \<mapsto> Str ''0'',
         ''COUNIDADE'' \<mapsto> Str ''0'', ''NO_FANTASIA'' \<mapsto> Str ''ubs''] \<noteq> None"
proof -
  have 1: "campo [''A'' \<mapsto> Str ''0''] [''A'', ''B''] ''d'' = ''0''"
    by (simp add: strip_def isspace_def)
  have 2: "campo Map.empty [''A'', ''B''] ''d'' = ''d''" by simp
  have 3: "processar_linha title_ascii
        [''CO_UNIDADE'' \<mapsto> Str ''0'', ''CNES'' \<mapsto> Str ''0'', ''CO_CNES'' \<mapsto> Str ''0'',
         ''COUNIDADE'' \<mapsto> Str ''0'', ''NO_FANTASIA'' \<mapsto> Str ''ubs''] \<noteq> None"
    by (simp only: processar_linha_None) (simp add: strip_def isspace_def)
  from 1 2 3 show ?thesis by blast
qed

lemma zfill_7_zero: "zfill 7 ''0'' = ''0000000''"
  by (simp add: zfill_def numeral_eq_Suc)

text \<open>
  C6, amended. A string zero is an ordinary value for field resolution: a candidate
  whose trimmed text is \<open>0\<close> is returned, and later candidates and the default are
  not consulted. A row whose facility code resolves to \<open>0\<close> is skipped only when it has
  no name, and is otherwise emitted with the code \<open>0000000\<close>. (Zeros count as "no
  value" only in the deactivation-date filter.)
\<close>

theorem string_zero_is_a_value:
  "(row c = Some (Str v) \<longrightarrow> strip v = ''0'' \<longrightarrow> campo row (c # candidatos) dflt = ''0'')
   \<and> (campo row [''CO_UNIDADE'', ''CNES'', ''CO_CNES'', ''COUNIDADE''] '''' = ''0'' \<longrightarrow>
        (processar_linha title row = None) =
          (campo row [''NO_FANTASIA'', ''NOFANTASIA''] '''' = '''' \<and>
           campo row [''NO_RAZAO_SOCIAL'', ''NO_RAZAO_SOCIAL_'', ''NORAZAOSOCIAL''] '''' = '''')
        \<and> (processar_linha title row = Some r \<longrightarrow> cnes r = ''0000000''))"
proof -
  have 1: "campo row (c # candidatos) dflt = ''0''"
    if "row c = Some (Str v)" and "strip v = ''0''"
    using that by simp
  have 2: "(processar_linha title row = None) =
          (campo row [''NO_FANTASIA'', ''NOFANTASIA''] '''' = '''' \<and>
           campo row [''NO_RAZAO_SOCIAL'', ''NO_RAZAO_SOCIAL_'', ''NORAZAOSOCIAL''] '''' = '''')"
    if "campo row [''CO_UNIDADE'', ''CNES'', ''CO_CNES'', ''COUNIDADE''] '''' = ''0''"
    using that by (simp only: processar_linha_None) simp
  have 3: "cnes r = ''0000000''"
    if z: "campo row [''CO_UNIDADE'', ''CNES'', ''CO_CNES'', ''COUNIDADE''] '''' = ''0''"
      and r: "processar_linha title row = Some r"
  proof -
    have "cnes r = zfill 7 (campo row [''CO_UNIDADE'', ''CNES'', ''CO_CNES'', ''COUNIDADE''] '''')"
      using processar_linha_Some(1) [OF r] by (simp add: registro_de_def del: campo.simps)
    then show ?thesis by (simp only: z zfill_7_zero)
  qed
  from 1 2 3 show ?thesis by blast
qed

theorem string_zero_is_a_value_witness:
  "campo [''CNES'' \<mapsto> Str '' 0 '', ''NO_FANTASIA'' \<mapsto> Str ''ubs''] [''CNES'', ''CO_CNES''] ''''
     = ''0''
   \<and> processar_linha title_ascii [''CNES'' \<mapsto> Str '' 0 '', ''NO_FANTASIA'' \<mapsto> Str ''ubs'']
       \<noteq> None"
proof -
  let ?row = "[''CNES'' \<mapsto> Str '' 0 '', ''NO_FANTASIA'' \<mapsto> Str ''ubs'']"
  have a: "?row ''CNES'' = Some (Str '' 0 '')" by simp
  have b: "strip '' 0 '' = ''0''" by (simp add: strip_def isspace_def)
  have c: "campo ?row [''CO_UNIDADE'', ''CNES'', ''CO_CNES'', ''COUNIDADE''] '''' = ''0''"
    by (simp add: strip_def isspace_def)
  have d: "campo ?row [''NO_FANTASIA'', ''NOFANTASIA''] '''' \<noteq> ''''"
    by (simp add: strip_def isspace_def)
  from string_zero_is_a_value [of ?row "''CNES''" "'' 0 ''" "[''CO_CNES'']" "''''" title_ascii]
    a b c d
  show ?thesis by blast
qed

section \<open>Table filters: properties\<close>

text \<open>
  On a well-formed frame a label is in the index of a row exactly when the row, read as
  a map, has a cell for it: the test \<^verbatim>\<open>c in row.index\<close> of \<open>campo\<close> is the presence
  of \<open>c\<close> in the map.
\<close>

lemma linha_presente:
  assumes "bem_formado cols rows" and "vals \<in> set rows"
  shows "(linha cols vals c \<noteq> None) = (c \<in> set cols)"
proof -
  from assms have "length vals = length cols"
    by (simp add: bem_formado_def list_all_iff)
  then have "map fst (zip cols vals) = cols" by simp
  then have "fst ` set (zip cols vals) = set cols" by (metis set_map)
  then show ?thesis by (simp add: linha_def map_of_eq_None_iff)
qed

lemma isin_GESTAO_SUS:
  "isin v GESTAO_SUS = (v \<in> {Some (Str ''M''), Some (Str ''E''), Some (Str ''D'')})"
proof (cases v)
  case None
  then show ?thesis by simp
next
  case (Some c)
  then show ?thesis by (cases c) (auto simp: GESTAO_SUS_def)
qed

lemma find_None_aliases:
  "(find (\<lambda>c. c \<in> C) as = None) = (\<forall>c \<in> set as. c \<notin> C)"
  by (auto simp: find_None_iff)

lemma find_Some_first:
  "find P as = Some c \<Longrightarrow> c \<in> set as \<and> P c"
  by (induction as) (auto split: if_splits)

text \<open>
  C4. When none of \<open>TP_GESTAO\<close>, \<open>TP_GESTAO_\<close>, \<open>TPGESTAO\<close> is a column of the
  frame, the affiliation filter returns the frame unchanged. When one is, the first of
  them in that order is used, and exactly the rows whose cell in that column is the text
  \<open>M\<close>, \<open>E\<close> or \<open>D\<close> are kept; the columns are unchanged. \<open>processar_df\<close> applies the
  filter to the frame with upper-cased column labels, before the active-status filter
  and the normalisation of the rows.
\<close>

theorem affiliation_filter:
  "((\<forall>c \<in> set [''TP_GESTAO'', ''TP_GESTAO_'', ''TPGESTAO'']. c \<notin> set (columns df))
      \<longrightarrow> filtro_sus df = df)
   \<and> (find (\<lambda>c. c \<in> set (columns df)) [''TP_GESTAO'', ''TP_GESTAO_'', ''TPGESTAO''] = Some c
      \<longrightarrow> c \<in> set [''TP_GESTAO'', ''TP_GESTAO_'', ''TPGESTAO''] \<and> c \<in> set (columns df)
        \<and> columns (filtro_sus df) = columns df
        \<and> dados (filtro_sus df) =
            filter (\<lambda>vals. linha (columns df) vals c
                             \<in> {Some (Str ''M''), Some (Str ''E''), Some (Str ''D'')})
              (dados df))
   \<and> ((\<exists>c \<in> set [''TP_GESTAO'', ''TP_GESTAO_'', ''TPGESTAO'']. c \<in> set (columns df))
      \<longrightarrow> (\<exists>c. find (\<lambda>c. c \<in> set (columns df))
                  [''TP_GESTAO'', ''TP_GESTAO_'', ''TPGESTAO''] = Some c))
   \<and> processar_df upper title df uf =
       List.map_filter (processar_linha title)
         (iterrows
            (filtro_ativas [''DT_DESATIVACAO'', ''DT_DESATIVACAO_'', ''DTDESATIVACAO'']
               (filtro_sus (df\<lparr>columns := map upper (columns df)\<rparr>))))"
proof -
  let ?as = "[''TP_GESTAO'', ''TP_GESTAO_'', ''TPGESTAO'']"
  let ?f = "find (\<lambda>c. c \<in> set (columns df)) ?as"
  have 1: "filtro_sus df = df" if "\<forall>c \<in> set ?as. c \<notin> set (columns df)"
  proof -
    from that have "?f = None" by (simp only: find_None_aliases)
    then show ?thesis by (simp only: filtro_sus_def option.case)
  qed
  have 2: "c \<in> set ?as \<and> c \<in> set (columns df) \<and> columns (filtro_sus df) = columns df
        \<and> dados (filtro_sus df) =
            filter (\<lambda>vals. linha (columns df) vals c
                             \<in> {Some (Str ''M''), Some (Str ''E''), Some (Str ''D'')})
              (dados df)"
    if f: "?f = Some c"
  proof -
    from find_Some_first [OF f] have m: "c \<in> set ?as \<and> c \<in> set (columns df)" .
    have "filtro_sus df =
            df\<lparr>dados := filter (\<lambda>vals. isin (linha (columns df) vals c) GESTAO_SUS)
                           (dados df)\<rparr>"
      by (simp only: filtro_sus_def f option.case)
    then show ?thesis using m by (simp add: isin_GESTAO_SUS)
  qed
  have 3: "\<exists>c. ?f = Some c" if "\<exists>c \<in> set ?as. c \<in> set (columns df)"
  proof -
    from that have "?f \<noteq> None" by (simp only: find_None_aliases) blast
    then show ?thesis by blast
  qed
  have 4: "processar_df upper title df uf =
       List.map_filter (processar_linha title)
         (iterrows
            (filtro_ativas [''DT_DESATIVACAO'', ''DT_DESATIVACAO_'', ''DTDESATIVACAO'']
               (filtro_sus (df\<lparr>columns := map upper (columns df)\<rparr>))))"
    by (simp only: processar_df_def Let_def)
  from 1 2 3 4 show ?thesis by blast
qed

theorem affiliation_filter_witness:
  "dados (filtro_sus \<lparr>columns = [''CNES'', ''TP_GESTAO''],
                      dados = [[Str ''1'', Str ''M''], [Str ''2'', Str ''S''],
                               [Str ''3'', Str ''E'']]\<rparr>)
     = [[Str ''1'', Str ''M''], [Str ''3'', Str ''E'']]
   \<and> filtro_sus \<lparr>columns = [''CNES'', ''NO_FANTASIA''],
                  dados = [[Str ''1'', Str ''a''], [Str ''2'', Str ''b'']]\<rparr>
     = \<lparr>columns = [''CNES'', ''NO_FANTASIA''],
        dados = [[Str ''1'', Str ''a''], [Str ''2'', Str ''b'']]\<rparr>"
proof -
  let ?df = "\<lparr>columns = [''CNES'', ''TP_GESTAO''],
              dados = [[Str ''1'', Str ''M''], [Str ''2'', Str ''S''],
                       [Str ''3'', Str ''E'']]\<rparr>"
  let ?df2 = "\<lparr>columns = [''CNES'', ''NO_FANTASIA''],
               dados = [[Str ''1'', Str ''a''], [Str ''2'', Str ''b'']]\<rparr>"
  have f: "find (\<lambda>c. c \<in> set (columns ?df)) [''TP_GESTAO'', ''TP_GESTAO_'', ''TPGESTAO'']
             = Some ''TP_GESTAO''"
    by simp
  from affiliation_filter [of ?df "''TP_GESTAO''"] f
  have "dados (filtro_sus ?df) =
          filter (\<lambda>vals. linha (columns ?df) vals ''TP_GESTAO''
                           \<in> {Some (Str ''M''), Some (Str ''E''), Some (Str ''D'')})
            (dados ?df)"
    by blast
  then have 1: "dados (filtro_sus ?df) = [[Str ''1'', Str ''M''], [Str ''3'', Str ''E'']]"
    by (simp add: linha_def)
  have n: "\<forall>c \<in> set [''TP_GESTAO'', ''TP_GESTAO_'', ''TPGESTAO'']. c \<notin> set (columns ?df2)"
    by simp
  from affiliation_filter [of ?df2] n have 2: "filtro_sus ?df2 = ?df2" by blast
  from 1 2 show ?thesis by (rule conjI)
qed





section \<open>Shape of the emitted records\<close>

lemma isdigit_chars:
  "isdigit c = (c \<in> set ''0123456789'' \<or> c \<in> {CHR 0xB2, CHR 0xB3, CHR 0xB9})"
proof
  assume "isdigit c"
  then have "(of_char c :: nat) \<in> {48, 49, 50, 51, 52, 53, 54, 55, 56, 57, 178, 179, 185}"
    unfolding isdigit_def Let_def by simp arith
  then have "(of_char c :: nat)
               \<in> of_char ` (set ''0123456789'' \<union> {CHR 0xB2, CHR 0xB3, CHR 0xB9})"
    by simp blast
  then have "c \<in> set ''0123456789'' \<union> {CHR 0xB2, CHR 0xB3, CHR 0xB9}"
    by (simp only: inj_image_mem_iff [OF inj_of_char])
  then show "c \<in> set ''0123456789'' \<or> c \<in> {CHR 0xB2, CHR 0xB3, CHR 0xB9}"
    by (simp only: Un_iff)
next
  assume "c \<in> set ''0123456789'' \<or> c \<in> {CHR 0xB2, CHR 0xB3, CHR 0xB9}"
  then show "isdigit c" by (auto simp: isdigit_def)
qed

lemma length_zfill: "length (zfill width s) = max width (length s)"
  by (cases s) (auto simp: zfill_def)

lemma zfill_left_pad:
  "s = [] \<or> (hd s \<noteq> CHR ''+'' \<and> hd s \<noteq> CHR ''-'') \<Longrightarrow> zfill width s = left_pad width s"
  by (cases s) (auto simp: zfill_def left_pad_def)

lemma TP_UNIDADE_MAP_niveis:
  "\<forall>e \<in> set TP_UNIDADE_MAP. fst (snd e) \<in> {''primaria'', ''secundaria'', ''terciaria''}"
  by (simp add: TP_UNIDADE_MAP_def)

lemma dict_get_nivel:
  "fst (dict_get TP_UNIDADE_MAP k (''primaria'', d))
     \<in> {''primaria'', ''secundaria'', ''terciaria''}"
proof (cases "map_of TP_UNIDADE_MAP k")
  case None
  then show ?thesis by (simp add: dict_get_def)
next
  case (Some e)
  then have "(k, e) \<in> set TP_UNIDADE_MAP" by (rule map_of_SomeD)
  with TP_UNIDADE_MAP_niveis have "fst e \<in> {''primaria'', ''secundaria'', ''terciaria''}"
    by fastforce
  with Some show ?thesis by (simp add: dict_get_def)
qed

lemma dict_get_gestao:
  "dict_get [(''M'', ''Municipal''), (''E'', ''Estadual''), (''D'', ''Municipal'')] g ''Municipal''
     \<in> {''Municipal'', ''Estadual''}"
  by (simp add: dict_get_def)

lemma registro_de_invariante:
  "length (cnes (registro_de title row)) =
     max 7 (length (campo row [''CO_UNIDADE'', ''CNES'', ''CO_CNES'', ''COUNIDADE''] ''''))"
  "hd (campo row [''CO_UNIDADE'', ''CNES'', ''CO_CNES'', ''COUNIDADE''] '''') \<noteq> CHR ''+'' \<and>
   hd (campo row [''CO_UNIDADE'', ''CNES'', ''CO_CNES'', ''COUNIDADE''] '''') \<noteq> CHR ''-'' \<Longrightarrow>
     cnes (registro_de title row) =
       left_pad 7 (campo row [''CO_UNIDADE'', ''CNES'', ''CO_CNES'', ''COUNIDADE''] '''')"
  "ibge6 (registro_de title row) = '''' \<or>
   length (ibge6 (registro_de title row)) =
     max 6 (length (campo row [''CO_MUNICIPIO_GESTOR'', ''CO_MUNICIPIO'', ''CO_MUN_GESTOR'',
                               ''COMUNICIPIOGESTOR''] ''''))"
  "nivel (registro_de title row) \<in> {''primaria'', ''secundaria'', ''terciaria''}"
  "gestao (registro_de title row) \<in> {''Municipal'', ''Estadual''}"
  "\<forall>c \<in> set (cep (registro_de title row)). isdigit c"
  "\<forall>c \<in> set (tel (registro_de title row)). isdigit c"
  using dict_get_nivel dict_get_gestao
  by (simp_all add: registro_de_def length_zfill zfill_left_pad del: campo.simps)

lemma linha_tabela_c3:
  "iterrows (filtro_ativas [''DT_DESATIVACAO'', ''DT_DESATIVACAO_'', ''DTDESATIVACAO'']
       (filtro_sus (tabela_c3\<lparr>columns := map upper_ascii (columns tabela_c3)\<rparr>)))
   = [[''CO_UNIDADE'' \<mapsto> Str ''12345678'', ''NO_FANTASIA'' \<mapsto> Str ''ubs'',
       ''CO_MUNICIPIO_GESTOR'' \<mapsto> Str ''330455'',
       ''DS_CEP'' \<mapsto> Str (''20.000-000'' @ [CHR 0xB2])],
      [''CO_UNIDADE'' \<mapsto> Str ''-12'', ''NO_FANTASIA'' \<mapsto> Str ''upa'',
       ''CO_MUNICIPIO_GESTOR'' \<mapsto> NaN, ''DS_CEP'' \<mapsto> PyNone]]"
  by (simp add: tabela_c3_def upper_ascii_def ascii_upper_def filtro_sus_def iterrows_def
        linha_def fun_upd_twist)

lemma registro_tabela_c3_1:
  "registro_de title_ascii [''CO_UNIDADE'' \<mapsto> Str ''12345678'', ''NO_FANTASIA'' \<mapsto> Str ''ubs'',
       ''CO_MUNICIPIO_GESTOR'' \<mapsto> Str ''330455'',
       ''DS_CEP'' \<mapsto> Str (''20.000-000'' @ [CHR 0xB2])]
   = \<lparr>cnes = ''12345678'', nome = ''Ubs'', nivel = ''primaria'',
      perfil = ''Centro de Sa'' @ [CHR 0xFA] @ ''de / UBS'', gestao = ''Municipal'',
      ibge6 = ''330455'', logradouro = '''', bairro = '''',
      cep = ''20000000'' @ [CHR 0xB2], tel = ''''\<rparr>"
  by (simp add: registro_de_def strip_def isspace_def isdigit_def zfill_def dict_get_def
        TP_UNIDADE_MAP_def title_ascii_def ascii_upper_def ascii_lower_def ascii_cased_def)

lemma registro_tabela_c3_2:
  "registro_de title_ascii [''CO_UNIDADE'' \<mapsto> Str ''-12'', ''NO_FANTASIA'' \<mapsto> Str ''upa'',
       ''CO_MUNICIPIO_GESTOR'' \<mapsto> NaN, ''DS_CEP'' \<mapsto> PyNone]
   = \<lparr>cnes = ''-000012'', nome = ''Upa'', nivel = ''primaria'',
      perfil = ''Centro de Sa'' @ [CHR 0xFA] @ ''de / UBS'', gestao = ''Municipal'',
      ibge6 = '''', logradouro = '''', bairro = '''', cep = '''', tel = ''''\<rparr>"
  by (simp add: registro_de_def strip_def isspace_def isdigit_def zfill_def dict_get_def
        TP_UNIDADE_MAP_def title_ascii_def ascii_upper_def ascii_lower_def ascii_cased_def
        eval_nat_numeral)

lemma processar_tabela_c3:
  "processar_df upper_ascii title_ascii tabela_c3 ''RJ'' =
     [\<lparr>cnes = ''12345678'', nome = ''Ubs'', nivel = ''primaria'',
       perfil = ''Centro de Sa'' @ [CHR 0xFA] @ ''de / UBS'', gestao = ''Municipal'',
       ibge6 = ''330455'', logradouro = '''', bairro = '''',
       cep = ''20000000'' @ [CHR 0xB2], tel = ''''\<rparr>,
      \<lparr>cnes = ''-000012'', nome = ''Upa'', nivel = ''primaria'',
       perfil = ''Centro de Sa'' @ [CHR 0xFA] @ ''de / UBS'', gestao = ''Municipal'',
       ibge6 = '''', logradouro = '''', bairro = '''', cep = '''', tel = ''''\<rparr>]"
proof -
  have a: "processar_linha title_ascii [''CO_UNIDADE'' \<mapsto> Str ''12345678'',
       ''NO_FANTASIA'' \<mapsto> Str ''ubs'', ''CO_MUNICIPIO_GESTOR'' \<mapsto> Str ''330455'',
       ''DS_CEP'' \<mapsto> Str (''20.000-000'' @ [CHR 0xB2])]
     = Some \<lparr>cnes = ''12345678'', nome = ''Ubs'', nivel = ''primaria'',
       perfil = ''Centro de Sa'' @ [CHR 0xFA] @ ''de / UBS'', gestao = ''Municipal'',
       ibge6 = ''330455'', logradouro = '''', bairro = '''',
       cep = ''20000000'' @ [CHR 0xB2], tel = ''''\<rparr>"
    by (simp only: processar_linha_unfold registro_tabela_c3_1)
       (simp add: strip_def isspace_def)
  have b: "processar_linha title_ascii [''CO_UNIDADE'' \<mapsto> Str ''-12'',
       ''NO_FANTASIA'' \<mapsto> Str ''upa'', ''CO_MUNICIPIO_GESTOR'' \<mapsto> NaN, ''DS_CEP'' \<mapsto> PyNone]
     = Some \<lparr>cnes = ''-000012'', nome = ''Upa'', nivel = ''primaria'',
       perfil = ''Centro de Sa'' @ [CHR 0xFA] @ ''de / UBS'', gestao = ''Municipal'',
       ibge6 = '''', logradouro = '''', bairro = '''', cep = '''', tel = ''''\<rparr>"
    by (simp only: processar_linha_unfold registro_tabela_c3_2)
       (simp add: strip_def isspace_def)
  show ?thesis
    by (simp only: processar_df_def Let_def linha_tabela_c3 List.map_filter_simps a b
          option.case)
qed

text \<open>
  C3, as stated, fails: \<open>zfill\<close> pads and never truncates, and \<^verbatim>\<open>str.isdigit\<close>
  accepts the superscript digits. The first row of \<open>tabela_c3\<close> is emitted with an id
  of eight characters and a postal code that ends in a superscript two; the second
  row's signed code gets its zeros after the sign, where left padding would put them
  before it.
\<close>

theorem record_shape_counterexample:
  "map cnes (processar_df upper_ascii title_ascii tabela_c3 ''RJ'')
     = [''12345678'', ''-000012'']
   \<and> left_pad 7 ''-12'' = ''0000-12''
   \<and> map cep (processar_df upper_ascii title_ascii tabela_c3 ''RJ'')
     = [''20000000'' @ [CHR 0xB2], '''']"
  by (simp only: processar_tabela_c3) (simp add: left_pad_def eval_nat_numeral)

lemma zfill_como_left_pad:
  "width \<le> length s \<or> (hd s \<noteq> CHR ''+'' \<and> hd s \<noteq> CHR ''-'')
     \<Longrightarrow> zfill width s = left_pad width s"
  by (cases s) (auto simp: zfill_def left_pad_def)

lemma zfill_apos_sinal:
  "length s < width \<Longrightarrow> s \<noteq> [] \<Longrightarrow> hd s = CHR ''+'' \<or> hd s = CHR ''-''
     \<Longrightarrow> zfill width s = hd s # replicate (width - length s) (CHR ''0'') @ tl s"
  by (cases s) (auto simp: zfill_def)

lemma registro_de_cnes:
  fixes title row
  defines "code \<equiv> campo row [''CO_UNIDADE'', ''CNES'', ''CO_CNES'', ''COUNIDADE''] ''''"
  assumes "code \<noteq> ''''"
  shows "length (cnes (registro_de title row)) = max 7 (length code)"
    and "7 \<le> length code \<or> (hd code \<noteq> CHR ''+'' \<and> hd code \<noteq> CHR ''-'')
           \<longrightarrow> cnes (registro_de title row) = left_pad 7 code"
    and "length code < 7 \<and> (hd code = CHR ''+'' \<or> hd code = CHR ''-'')
           \<longrightarrow> cnes (registro_de title row)
                 = hd code # replicate (7 - length code) (CHR ''0'') @ tl code"
proof -
  have c: "cnes (registro_de title row) = zfill 7 code"
    by (simp add: registro_de_def code_def del: campo.simps)
  show "length (cnes (registro_de title row)) = max 7 (length code)"
    by (simp only: c length_zfill)
  show "7 \<le> length code \<or> (hd code \<noteq> CHR ''+'' \<and> hd code \<noteq> CHR ''-'')
           \<longrightarrow> cnes (registro_de title row) = left_pad 7 code"
    using zfill_como_left_pad [of 7 code] by (simp only: c) blast
  show "length code < 7 \<and> (hd code = CHR ''+'' \<or> hd code = CHR ''-'')
           \<longrightarrow> cnes (registro_de title row)
                 = hd code # replicate (7 - length code) (CHR ''0'') @ tl code"
    using zfill_apos_sinal [of code 7] assms(2) by (simp only: c) blast
qed

lemma registro_de_ibge6:
  fixes title row
  defines "region \<equiv> campo row [''CO_MUNICIPIO_GESTOR'', ''CO_MUNICIPIO'', ''CO_MUN_GESTOR'',
                                 ''COMUNICIPIOGESTOR''] ''''"
  shows "region = '''' \<longrightarrow> ibge6 (registro_de title row) = ''''"
    and "region \<noteq> '''' \<and> length region \<le> 6 \<longrightarrow>
           length (ibge6 (registro_de title row)) = 6
           \<and> (length region = 6 \<or> (hd region \<noteq> CHR ''+'' \<and> hd region \<noteq> CHR ''-'')
                \<longrightarrow> ibge6 (registro_de title row) = left_pad 6 region)
           \<and> (length region < 6 \<and> (hd region = CHR ''+'' \<or> hd region = CHR ''-'')
                \<longrightarrow> ibge6 (registro_de title row)
                      = hd region # replicate (6 - length region) (CHR ''0'') @ tl region)"
proof -
  have i: "ibge6 (registro_de title row) = (if region \<noteq> '''' then zfill 6 region else '''')"
    by (simp add: registro_de_def region_def del: campo.simps)
  show "region = '''' \<longrightarrow> ibge6 (registro_de title row) = ''''"
    by (simp only: i) simp
  show "region \<noteq> '''' \<and> length region \<le> 6 \<longrightarrow>
           length (ibge6 (registro_de title row)) = 6
           \<and> (length region = 6 \<or> (hd region \<noteq> CHR ''+'' \<and> hd region \<noteq> CHR ''-'')
                \<longrightarrow> ibge6 (registro_de title row) = left_pad 6 region)
           \<and> (length region < 6 \<and> (hd region = CHR ''+'' \<or> hd region = CHR ''-'')
                \<longrightarrow> ibge6 (registro_de title row)
                      = hd region # replicate (6 - length region) (CHR ''0'') @ tl region)"
  proof
    assume a: "region \<noteq> '''' \<and> length region \<le> 6"
    then have z: "ibge6 (registro_de title row) = zfill 6 region" by (simp only: i) simp
    have 1: "length (ibge6 (registro_de title row)) = 6"
      using a by (simp only: z length_zfill) simp
    have 2: "length region = 6 \<or> (hd region \<noteq> CHR ''+'' \<and> hd region \<noteq> CHR ''-'')
                \<longrightarrow> ibge6 (registro_de title row) = left_pad 6 region"
      using zfill_como_left_pad [of 6 region] by (simp only: z) auto
    have 3: "length region < 6 \<and> (hd region = CHR ''+'' \<or> hd region = CHR ''-'')
                \<longrightarrow> ibge6 (registro_de title row)
                      = hd region # replicate (6 - length region) (CHR ''0'') @ tl region"
      using zfill_apos_sinal [of region 6] a by (simp only: z) blast
    from 1 2 3 show "length (ibge6 (registro_de title row)) = 6
           \<and> (length region = 6 \<or> (hd region \<noteq> CHR ''+'' \<and> hd region \<noteq> CHR ''-'')
                \<longrightarrow> ibge6 (registro_de title row) = left_pad 6 region)
           \<and> (length region < 6 \<and> (hd region = CHR ''+'' \<or> hd region = CHR ''-'')
                \<longrightarrow> ibge6 (registro_de title row)
                      = hd region # replicate (6 - length region) (CHR ''0'') @ tl region)"
      by blast
  qed
qed

text \<open>
  C3, amended. Every record the pipeline emits comes from a row that is not skipped.
  With \<open>code\<close> and \<open>region\<close> the facility code and the region code this row resolves
  to: the id has \<open>max 7 n\<close> characters, \<open>n\<close> the length of \<open>code\<close> (exactly seven when
  \<open>code\<close> has at most seven); it is \<open>code\<close> left-padded with zeros, except that for a
  shorter \<open>code\<close> that starts with a sign the zeros stand between the sign and the rest.
  The region code is empty when \<open>region\<close> is, and when \<open>region\<close> has at most six
  characters it has exactly six, padded as the id is (a longer \<open>region\<close> is left out of
  the statement: the code's comment promises six digits). The tier is one of
  \<open>primaria\<close>, \<open>secundaria\<close>, \<open>terciaria\<close> and the governance label one of
  \<open>Municipal\<close>, \<open>Estadual\<close>; every character of the postal code and of the phone
  satisfies \<^verbatim>\<open>str.isdigit\<close>.
\<close>

theorem emitted_record_shape:
  assumes "r \<in> set (processar_df upper title df uf)"
  shows "\<exists>row \<in> set (iterrows
            (filtro_ativas [''DT_DESATIVACAO'', ''DT_DESATIVACAO_'', ''DTDESATIVACAO'']
               (filtro_sus (df\<lparr>columns := map upper (columns df)\<rparr>)))).
           processar_linha title row = Some r
         \<and> (let code = campo row [''CO_UNIDADE'', ''CNES'', ''CO_CNES'', ''COUNIDADE''] '''';
                 region = campo row [''CO_MUNICIPIO_GESTOR'', ''CO_MUNICIPIO'',
                                     ''CO_MUN_GESTOR'', ''COMUNICIPIOGESTOR''] ''''
             in code \<noteq> ''''
              \<and> length (cnes r) = max 7 (length code)
              \<and> (7 \<le> length code \<or> (hd code \<noteq> CHR ''+'' \<and> hd code \<noteq> CHR ''-'')
                   \<longrightarrow> cnes r = left_pad 7 code)
              \<and> (length code < 7 \<and> (hd code = CHR ''+'' \<or> hd code = CHR ''-'')
                   \<longrightarrow> cnes r = hd code # replicate (7 - length code) (CHR ''0'') @ tl code)
              \<and> (region = '''' \<longrightarrow> ibge6 r = '''')
              \<and> (region \<noteq> '''' \<and> length region \<le> 6 \<longrightarrow>
                   length (ibge6 r) = 6
                   \<and> (length region = 6 \<or> (hd region \<noteq> CHR ''+'' \<and> hd region \<noteq> CHR ''-'')
                        \<longrightarrow> ibge6 r = left_pad 6 region)
                   \<and> (length region < 6 \<and> (hd region = CHR ''+'' \<or> hd region = CHR ''-'')
                        \<longrightarrow> ibge6 r
                              = hd region # replicate (6 - length region) (CHR ''0'')
                                  @ tl region)))
         \<and> nivel r \<in> {''primaria'', ''secundaria'', ''terciaria''}
         \<and> gestao r \<in> {''Municipal'', ''Estadual''}
         \<and> (\<forall>c \<in> set (cep r). isdigit c)
         \<and> (\<forall>c \<in> set (tel r). isdigit c)"
proof -
  let ?rows = "iterrows
            (filtro_ativas [''DT_DESATIVACAO'', ''DT_DESATIVACAO_'', ''DTDESATIVACAO'']
               (filtro_sus (df\<lparr>columns := map upper (columns df)\<rparr>)))"
  from assms obtain row where row: "row \<in> set ?rows" and r: "processar_linha title row = Some r"
    by (simp only: processar_df_def Let_def map_filter_set) blast
  note e = processar_linha_Some [OF r]
  note c = registro_de_cnes [OF e(2), of title, folded e(1)]
  note i = registro_de_ibge6 [of row title, folded e(1)]
  note v = registro_de_invariante(4-7) [where title = title and row = row, folded e(1)]
  from e(2) c i have "let code = campo row [''CO_UNIDADE'', ''CNES'', ''CO_CNES'', ''COUNIDADE''] '''';
                 region = campo row [''CO_MUNICIPIO_GESTOR'', ''CO_MUNICIPIO'',
                                     ''CO_MUN_GESTOR'', ''COMUNICIPIOGESTOR''] ''''
             in code \<noteq> ''''
              \<and> length (cnes r) = max 7 (length code)
              \<and> (7 \<le> length code \<or> (hd code \<noteq> CHR ''+'' \<and> hd code \<noteq> CHR ''-'')
                   \<longrightarrow> cnes r = left_pad 7 code)
              \<and> (length code < 7 \<and> (hd code = CHR ''+'' \<or> hd code = CHR ''-'')
                   \<longrightarrow> cnes r = hd code # replicate (7 - length code) (CHR ''0'') @ tl code)
              \<and> (region = '''' \<longrightarrow> ibge6 r = '''')
              \<and> (region \<noteq> '''' \<and> length region \<le> 6 \<longrightarrow>
                   length (ibge6 r) = 6
                   \<and> (length region = 6 \<or> (hd region \<noteq> CHR ''+'' \<and> hd region \<noteq> CHR ''-'')
                        \<longrightarrow> ibge6 r = left_pad 6 region)
                   \<and> (length region < 6 \<and> (hd region = CHR ''+'' \<or> hd region = CHR ''-'')
                        \<longrightarrow> ibge6 r
                              = hd region # replicate (6 - length region) (CHR ''0'')
                                  @ tl region))"
    unfolding Let_def by (intro conjI)
  with row r v show ?thesis by blast
qed

theorem emitted_record_shape_witness:
  "length (cnes (hd (processar_df upper_ascii title_ascii tabela_c3 ''RJ''))) = 8
   \<and> nivel (hd (processar_df upper_ascii title_ascii tabela_c3 ''RJ''))
       \<in> {''primaria'', ''secundaria'', ''terciaria''}"
proof -
  let ?r = "hd (processar_df upper_ascii title_ascii tabela_c3 ''RJ'')"
  have m: "?r \<in> set (processar_df upper_ascii title_ascii tabela_c3 ''RJ'')"
    by (simp only: processar_tabela_c3) simp
  from emitted_record_shape [OF m]
  have n: "nivel ?r \<in> {''primaria'', ''secundaria'', ''terciaria''}" by blast
  have l: "length (cnes ?r) = 8" by (simp only: processar_tabela_c3) simp
  from l n show ?thesis by (rule conjI)
qed

section \<open>Normalising a normalised record\<close>

lemma strip_id:
  assumes "s \<noteq> []" and "\<not> isspace (hd s)" and "\<not> isspace (last s)"
  shows "strip s = s"
proof -
  from assms(1,3) have "dropWhile isspace (rev s) = rev s"
    by (cases "rev s") (simp_all add: last_rev [symmetric] hd_rev)
  moreover from assms(1,2) have "dropWhile isspace s = s"
    by (cases s) simp_all
  ultimately show ?thesis by (simp add: strip_def)
qed

lemma dropWhile_last: "dropWhile P xs \<noteq> [] \<Longrightarrow> last (dropWhile P xs) = last xs"
  by (induction xs) (auto split: if_splits)

lemma strip_ends:
  assumes "strip s \<noteq> []"
  shows "\<not> isspace (hd (strip s))" and "\<not> isspace (last (strip s))"
proof -
  let ?d = "dropWhile isspace (rev s)"
  from assms show "\<not> isspace (hd (strip s))"
    unfolding strip_def by (rule hd_dropWhile)
  have d: "?d \<noteq> []"
  proof
    assume e: "?d = []"
    have "strip s = []" unfolding strip_def e by simp
    with assms show False by simp
  qed
  from assms have "last (strip s) = last (rev ?d)"
    unfolding strip_def by (rule dropWhile_last)
  also have "\<dots> = hd ?d" using d by (simp add: last_rev)
  finally show "\<not> isspace (last (strip s))"
    using hd_dropWhile [OF d] by simp
qed

lemma limpo_strip:
  "strip s \<notin> {'''', ''nan'', ''None''} \<Longrightarrow> limpo (strip s)"
  using strip_ends [of s] by (simp add: limpo_def)

lemma campo_limpo: "campo row cs d = d \<or> limpo (campo row cs d)"
proof (induction cs)
  case Nil
  show ?case by simp
next
  case (Cons c cs)
  show ?case
  proof (cases "qualifica row c")
    case True
    then obtain v where v: "row c = Some v" and q: "strip (py_str v) \<notin> {'''', ''nan'', ''None''}"
      by (auto simp: qualifica_def split: option.splits)
    from True v have "campo row (c # cs) d = strip (py_str v)"
      by (simp only: campo_step) simp
    with limpo_strip [OF q] show ?thesis by simp
  next
    case False
    then have "campo row (c # cs) d = campo row cs d" by (simp only: campo_step) simp
    with Cons.IH show ?thesis by simp
  qed
qed

lemma campo_vazio_ou_limpo: "campo row cs '''' = '''' \<or> limpo (campo row cs '''')"
  by (rule campo_limpo)

lemma limpo_strip_id: "limpo v \<Longrightarrow> strip v = v"
  by (simp add: limpo_def strip_id)

lemma campo_reapresentado:
  assumes "row c = Some (Str v)" and "v = '''' \<or> limpo v" and "\<forall>c' \<in> set cs. row c' = None"
  shows "campo row (c # cs) '''' = v"
proof (cases "v = ''''")
  case True
  with assms(1) have "\<not> qualifica row c" by (simp add: qualifica_def strip_empty)
  then have "campo row (c # cs) '''' = campo row cs ''''" by (simp only: campo_step) simp
  also have "\<dots> = ''''" using assms(3) by (rule campo_all_absent)
  finally show ?thesis using True by simp
next
  case False
  with assms(2) have l: "limpo v" by simp
  then have s: "strip v = v" by (rule limpo_strip_id)
  from l have "v \<notin> {'''', ''nan'', ''None''}" by (simp add: limpo_def)
  with assms(1) s have "qualifica row c" by (simp add: qualifica_def)
  with assms(1) s show ?thesis by (simp only: campo_step) simp
qed

lemma campo_cong_rows:
  "\<forall>c \<in> set cs. row' c = row c \<Longrightarrow> campo row' cs d = campo row cs d"
  by (induction cs) (auto split: option.splits)

lemma zfill_idem: "zfill n (zfill n s) = zfill n s"
  by (rule zfill_ge) (simp add: length_zfill)

lemma limpo_zfill:
  assumes "limpo s" and "5 \<le> n"
  shows "limpo (zfill n s)"
proof (cases "n \<le> length s")
  case True
  with assms(1) show ?thesis by (simp add: zfill_def)
next
  case False
  from assms(1) obtain c rest where s: "s = c # rest" by (cases s) (simp_all add: limpo_def)
  from assms(1) s have c: "\<not> isspace c" and l: "\<not> isspace (last (c # rest))"
    by (simp_all add: limpo_def)
  have z: "\<not> isspace (CHR ''0'')" by (simp add: isspace_def)
  have len: "length (zfill n s) \<ge> 5" using assms(2) by (simp add: length_zfill)
  then have ne: "zfill n s \<noteq> []" "zfill n s \<noteq> ''nan''" "zfill n s \<noteq> ''None''"
    by auto
  from False have pos: "0 < n - length s" by simp
  have h: "\<not> isspace (hd (zfill n s))"
    using False s c z pos by (cases "n - length s") (simp_all add: zfill_def)
  have t: "\<not> isspace (last (zfill n s))"
    using False s l z pos
    by (cases "n - length s"; cases "rest = []") (auto simp: zfill_def last_append)
  from ne h t show ?thesis by (simp add: limpo_def)
qed

lemma isdigit_not_isspace: "isdigit c \<Longrightarrow> \<not> isspace c"
  unfolding isdigit_def isspace_def Let_def by arith

lemma digitos_limpo: "filter isdigit s = '''' \<or> limpo (filter isdigit s)"
proof (cases "filter isdigit s = ''''")
  case True
  then show ?thesis by simp
next
  case False
  let ?z = "filter isdigit s"
  from False have "hd ?z \<in> set ?z" by (rule hd_in_set)
  then have "isdigit (hd ?z)" by simp
  moreover from False have "last ?z \<in> set ?z" by (rule last_in_set)
  then have "isdigit (last ?z)" by simp
  ultimately have e: "\<not> isspace (hd ?z)" "\<not> isspace (last ?z)"
    by (simp_all add: isdigit_not_isspace)
  have n: "\<not> isdigit (CHR ''n'')" and N: "\<not> isdigit (CHR ''N'')" by (simp_all add: isdigit_def)
  have "?z \<noteq> ''nan''"
  proof
    assume "?z = ''nan''"
    then have "CHR ''n'' \<in> set ?z" by simp
    with n show False by simp
  qed
  moreover have "?z \<noteq> ''None''"
  proof
    assume "?z = ''None''"
    then have "CHR ''N'' \<in> set ?z" by simp
    with N show False by simp
  qed
  ultimately show ?thesis using False e by (simp add: limpo_def)
qed

lemma limpo_endereco:
  assumes "limpo l" and "limpo n"
  shows "limpo (l @ '', '' @ n)"
proof -
  from assms have ne: "l \<noteq> []" "n \<noteq> []" by (simp_all add: limpo_def)
  have v: "CHR '','' \<in> set (l @ '', '' @ n)" by simp
  have "l @ '', '' @ n \<noteq> ''nan''"
  proof
    assume eq: "l @ '', '' @ n = ''nan''"
    from v show False unfolding eq by simp
  qed
  moreover have "l @ '', '' @ n \<noteq> ''None''"
  proof
    assume eq: "l @ '', '' @ n = ''None''"
    from v show False unfolding eq by simp
  qed
  ultimately show ?thesis using assms ne by (simp add: limpo_def)
qed

lemma reapresentar_valores:
  "reapresentar row r ''CO_UNIDADE'' = Some (Str (cnes r))"
  "reapresentar row r ''NO_FANTASIA'' = Some (Str (nome r))"
  "reapresentar row r ''CO_MUNICIPIO_GESTOR'' = Some (Str (ibge6 r))"
  "reapresentar row r ''NO_LOGRADOURO'' = Some (Str (logradouro r))"
  "reapresentar row r ''DS_BAIRRO'' = Some (Str (bairro r))"
  "reapresentar row r ''DS_CEP'' = Some (Str (cep r))"
  "reapresentar row r ''NU_TELEFONE'' = Some (Str (tel r))"
  by (simp_all add: reapresentar_def)

lemma reapresentar_ausentes:
  "\<forall>c \<in> set [''CNES'', ''CO_CNES'', ''COUNIDADE'']. reapresentar row r c = None"
  "\<forall>c \<in> set [''NOFANTASIA'']. reapresentar row r c = None"
  "\<forall>c \<in> set [''CO_MUNICIPIO'', ''CO_MUN_GESTOR'', ''COMUNICIPIOGESTOR''].
     reapresentar row r c = None"
  "\<forall>c \<in> set [''DS_LOGRADOURO'', ''NOLOGRADOURO'']. reapresentar row r c = None"
  "\<forall>c \<in> set [''NU_ENDERECO'', ''DS_NUMERO'', ''NUENDERECO'']. reapresentar row r c = None"
  "\<forall>c \<in> set [''NO_BAIRRO'', ''DSBAIRRO'']. reapresentar row r c = None"
  "\<forall>c \<in> set [''NU_CEP'', ''CO_CEP'', ''DSCEP'']. reapresentar row r c = None"
  "\<forall>c \<in> set [''DS_TELEFONE'', ''NUTELEFONE'']. reapresentar row r c = None"
  by (simp_all add: reapresentar_def)

lemma reapresentar_codigos:
  "\<forall>c \<in> set [''TP_UNIDADE'', ''TP_UNIDADE_'', ''TPUNIDADE'']. reapresentar row r c = row c"
  "\<forall>c \<in> set [''TP_GESTAO'', ''TP_GESTAO_'', ''TPGESTAO'']. reapresentar row r c = row c"
  by (simp_all add: reapresentar_def)

lemma registro_de_limpo:
  assumes "campo row [''CO_UNIDADE'', ''CNES'', ''CO_CNES'', ''COUNIDADE''] '''' \<noteq> ''''"
  shows "limpo (cnes (registro_de title row))"
    and "ibge6 (registro_de title row) = '''' \<or> limpo (ibge6 (registro_de title row))"
    and "logradouro (registro_de title row) = ''''
           \<or> limpo (logradouro (registro_de title row))"
    and "bairro (registro_de title row) = '''' \<or> limpo (bairro (registro_de title row))"
    and "cep (registro_de title row) = '''' \<or> limpo (cep (registro_de title row))"
    and "tel (registro_de title row) = '''' \<or> limpo (tel (registro_de title row))"
proof -
  from assms campo_vazio_ou_limpo
  have "limpo (campo row [''CO_UNIDADE'', ''CNES'', ''CO_CNES'', ''COUNIDADE''] '''')"
    by blast
  then show "limpo (cnes (registro_de title row))"
    by (simp add: registro_de_def limpo_zfill del: campo.simps)
  show "ibge6 (registro_de title row) = '''' \<or> limpo (ibge6 (registro_de title row))"
    using campo_vazio_ou_limpo [of row "[''CO_MUNICIPIO_GESTOR'', ''CO_MUNICIPIO'',
                             ''CO_MUN_GESTOR'', ''COMUNICIPIOGESTOR'']"]
    by (auto simp add: registro_de_def limpo_zfill simp del: campo.simps)
  show "logradouro (registro_de title row) = ''''
           \<or> limpo (logradouro (registro_de title row))"
    using campo_vazio_ou_limpo [of row "[''NO_LOGRADOURO'', ''DS_LOGRADOURO'', ''NOLOGRADOURO'']"]
      campo_vazio_ou_limpo [of row "[''NU_ENDERECO'', ''DS_NUMERO'', ''NUENDERECO'']"]
      limpo_endereco
    by (simp add: registro_de_def del: campo.simps) blast
  show "bairro (registro_de title row) = '''' \<or> limpo (bairro (registro_de title row))"
    using campo_vazio_ou_limpo [of row "[''DS_BAIRRO'', ''NO_BAIRRO'', ''DSBAIRRO'']"]
    by (simp add: registro_de_def del: campo.simps)
  show "cep (registro_de title row) = '''' \<or> limpo (cep (registro_de title row))"
    using digitos_limpo by (simp add: registro_de_def del: campo.simps)
  show "tel (registro_de title row) = '''' \<or> limpo (tel (registro_de title row))"
    using digitos_limpo by (simp add: registro_de_def del: campo.simps)
qed

lemma registro_de_estavel:
  "zfill 7 (cnes (registro_de title row)) = cnes (registro_de title row)"
  "(if ibge6 (registro_de title row) \<noteq> '''' then zfill 6 (ibge6 (registro_de title row))
    else '''') = ibge6 (registro_de title row)"
  "filter isdigit (cep (registro_de title row)) = cep (registro_de title row)"
  "filter isdigit (tel (registro_de title row)) = tel (registro_de title row)"
  by (simp_all add: registro_de_def zfill_idem del: campo.simps)

text \<open>
  The round trip for any title-casing function, given that the emitted name is unchanged
  by it and is a value field resolution returns as it is.
\<close>

lemma renormalisation_geral:
  assumes "processar_linha title row = Some r"
    and "limpo (nome r)"
    and "title (nome r) = nome r"
  shows "processar_linha title (reapresentar row r) = Some r"
proof -
  let ?row' = "reapresentar row r"
  note e = processar_linha_Some [OF assms(1)]
  note l = registro_de_limpo [OF e(2), of title, folded e(1)]
  note st = registro_de_estavel [of title row, folded e(1)]
  have f1: "campo ?row' [''CO_UNIDADE'', ''CNES'', ''CO_CNES'', ''COUNIDADE''] '''' = cnes r"
    using reapresentar_valores(1) l(1) reapresentar_ausentes(1)
    by (intro campo_reapresentado) simp_all
  have f2: "campo ?row' [''NO_FANTASIA'', ''NOFANTASIA''] '''' = nome r"
    using reapresentar_valores(2) assms(2) reapresentar_ausentes(2)
    by (intro campo_reapresentado) simp_all
  have f3: "campo ?row' [''CO_MUNICIPIO_GESTOR'', ''CO_MUNICIPIO'', ''CO_MUN_GESTOR'',
                         ''COMUNICIPIOGESTOR''] '''' = ibge6 r"
    using reapresentar_valores(3) l(2) reapresentar_ausentes(3)
    by (intro campo_reapresentado) simp_all
  have f4: "campo ?row' [''TP_UNIDADE'', ''TP_UNIDADE_'', ''TPUNIDADE''] ''02''
              = campo row [''TP_UNIDADE'', ''TP_UNIDADE_'', ''TPUNIDADE''] ''02''"
    using reapresentar_codigos(1) by (rule campo_cong_rows)
  have f5: "campo ?row' [''TP_GESTAO'', ''TP_GESTAO_'', ''TPGESTAO''] ''M''
              = campo row [''TP_GESTAO'', ''TP_GESTAO_'', ''TPGESTAO''] ''M''"
    using reapresentar_codigos(2) by (rule campo_cong_rows)
  have f6: "campo ?row' [''NO_LOGRADOURO'', ''DS_LOGRADOURO'', ''NOLOGRADOURO''] ''''
              = logradouro r"
    using reapresentar_valores(4) l(3) reapresentar_ausentes(4)
    by (intro campo_reapresentado) simp_all
  have f7: "campo ?row' [''NU_ENDERECO'', ''DS_NUMERO'', ''NUENDERECO''] '''' = ''''"
    using reapresentar_ausentes(5) by (rule campo_all_absent)
  have f8: "campo ?row' [''DS_BAIRRO'', ''NO_BAIRRO'', ''DSBAIRRO''] '''' = bairro r"
    using reapresentar_valores(5) l(4) reapresentar_ausentes(6)
    by (intro campo_reapresentado) simp_all
  have f9: "campo ?row' [''DS_CEP'', ''NU_CEP'', ''CO_CEP'', ''DSCEP''] '''' = cep r"
    using reapresentar_valores(6) l(5) reapresentar_ausentes(7)
    by (intro campo_reapresentado) simp_all
  have f10: "campo ?row' [''NU_TELEFONE'', ''DS_TELEFONE'', ''NUTELEFONE''] '''' = tel r"
    using reapresentar_valores(7) l(6) reapresentar_ausentes(8)
    by (intro campo_reapresentado) simp_all
  from assms(2) have n: "nome r \<noteq> ''''" by (simp add: limpo_def)
  from l(1) have c: "cnes r \<noteq> ''''" by (simp add: limpo_def)
  have cl: "nivel r = fst (dict_get TP_UNIDADE_MAP
                (zfill 2 (campo row [''TP_UNIDADE'', ''TP_UNIDADE_'', ''TPUNIDADE''] ''02''))
                (''primaria'', ''Unidade de Sa'' @ [CHR 0xFA] @ ''de''))"
           "perfil r = snd (dict_get TP_UNIDADE_MAP
                (zfill 2 (campo row [''TP_UNIDADE'', ''TP_UNIDADE_'', ''TPUNIDADE''] ''02''))
                (''primaria'', ''Unidade de Sa'' @ [CHR 0xFA] @ ''de''))"
           "gestao r = dict_get [(''M'', ''Municipal''), (''E'', ''Estadual''),
                         (''D'', ''Municipal'')]
                 (campo row [''TP_GESTAO'', ''TP_GESTAO_'', ''TPGESTAO''] ''M'')
                 ''Municipal''"
    by (simp_all only: e(1) registro_de_def registro.simps)
  have "registro_de title ?row' =
          \<lparr>cnes = cnes r, nome = nome r, nivel = nivel r, perfil = perfil r,
           gestao = gestao r, ibge6 = ibge6 r, logradouro = logradouro r,
           bairro = bairro r, cep = cep r, tel = tel r\<rparr>"
    by (simp only: registro_de_def [of title ?row'] f1 f2 f3 f4 f5 f6 f7 f8 f9 f10 st n
          assms(3) cl [symmetric] if_False if_True simp_thms)
  then have "registro_de title ?row' = r" by simp
  then show ?thesis
    by (simp only: processar_linha_unfold f1 f2 c n if_False)
qed

subsection \<open>Title-casing on Latin-1\<close>

lemma char_of_nat_eq: "(char_of (n::nat) = c) = (n mod 256 = of_char c)"
  by (simp add: char_of_eq_iff take_bit_eq_mod)

lemma eq_char_of_nat: "(c = char_of (n::nat)) = (n mod 256 = of_char c)"
  using char_of_nat_eq [of n c] by auto

lemma of_char_latin1_lower:
  "(of_char (latin1_lower c) :: nat) = (if latin1_upper c then of_char c + 32 else of_char c)"
  by (auto simp: latin1_lower_def latin1_upper_def Let_def)

lemma latin1_lower_idem: "latin1_lower (latin1_lower c) = latin1_lower c"
proof -
  have "\<not> latin1_upper (latin1_lower c)" if "latin1_upper c"
    using that unfolding latin1_upper_def [of "latin1_lower c"] Let_def of_char_latin1_lower
    by (auto simp: latin1_upper_def Let_def)
  then show ?thesis by (simp add: latin1_lower_def [of "latin1_lower c"]) (simp add: latin1_lower_def)
qed

lemma latin1_lower_cased: "latin1_cased (latin1_lower c) = latin1_cased c"
  unfolding latin1_cased_def latin1_upper_def [of "latin1_lower c"]
    latin1_small_def [of "latin1_lower c"] Let_def of_char_latin1_lower
  by (auto simp: latin1_upper_def latin1_small_def Let_def)

lemma latin1_lower_isspace: "isspace (latin1_lower c) = isspace c"
  unfolding isspace_def [of "latin1_lower c"] Let_def of_char_latin1_lower
  by (auto simp: latin1_upper_def isspace_def Let_def)

text \<open>The characters of a title-cased letter.\<close>

lemma latin1_totitle_cases:
  obtains (eszett) "(of_char c :: nat) = 223" "latin1_totitle c = ''Ss''"
  | (small) u where "latin1_small c" "latin1_totitle c = [u]"
      "(of_char u :: nat) = of_char c - 32" "latin1_upper u"
  | (same) "\<not> latin1_small c" "(of_char c :: nat) \<noteq> 223" "latin1_totitle c = [c]"
proof (cases "(of_char c :: nat) = 223")
  case True
  then show ?thesis using eszett by (simp add: latin1_totitle_def)
next
  case False
  show ?thesis
  proof (cases "latin1_small c")
    case True
    let ?u = "char_of (of_char c - 32 :: nat)"
    have "(of_char c :: nat) - 32 < 256"
      using nat_of_char_less_256 [of c] by arith
    then have o: "(of_char ?u :: nat) = of_char c - 32" by simp
    have "latin1_upper ?u"
      unfolding latin1_upper_def Let_def o using True by (auto simp: latin1_small_def Let_def)
    with True False o show ?thesis using small by (simp add: latin1_totitle_def)
  next
    case s: False
    with False show ?thesis using same by (simp add: latin1_totitle_def)
  qed
qed

lemma upper_not_small: "latin1_upper u \<Longrightarrow> \<not> latin1_small u \<and> (of_char u :: nat) \<noteq> 223"
  by (auto simp: latin1_upper_def latin1_small_def Let_def)

lemma latin1_totitle_upper: "latin1_upper u \<Longrightarrow> latin1_totitle u = [u]"
  using upper_not_small [of u] by (simp add: latin1_totitle_def)

lemma latin1_totitle_nonempty: "latin1_totitle c \<noteq> []"
  by (cases c rule: latin1_totitle_cases) simp_all

lemma latin1_totitle_fixed:
  "title_latin1_from False (latin1_totitle c) = latin1_totitle c"
proof (cases c rule: latin1_totitle_cases)
  case eszett
  have "title_latin1_from False ''Ss'' = ''Ss''"
    by (simp add: latin1_totitle_def latin1_lower_def latin1_cased_def latin1_upper_def
          latin1_small_def)
  with eszett show ?thesis by simp
next
  case (small u)
  then show ?thesis by (simp add: latin1_totitle_upper)
next
  case same
  then show ?thesis by (simp add: latin1_totitle_def)
qed

lemma latin1_totitle_cased: "latin1_cased (last (latin1_totitle c)) = latin1_cased c"
proof (cases c rule: latin1_totitle_cases)
  case eszett
  have "latin1_cased (CHR ''s'')" by (simp add: latin1_cased_def latin1_small_def)
  with eszett show ?thesis by (simp add: latin1_cased_def)
next
  case (small u)
  then show ?thesis by (simp add: latin1_cased_def)
next
  case same
  then show ?thesis by simp
qed

lemma latin1_totitle_isspace:
  "x \<in> set (latin1_totitle c) \<Longrightarrow> isspace x = isspace c"
proof (cases c rule: latin1_totitle_cases)
  case eszett
  assume "x \<in> set (latin1_totitle c)"
  with eszett have "x = CHR ''S'' \<or> x = CHR ''s''" by auto
  then have "\<not> isspace x" by (auto simp: isspace_def)
  moreover from eszett have "\<not> isspace c" by (simp add: isspace_def)
  ultimately show ?thesis by simp
next
  case (small u)
  assume "x \<in> set (latin1_totitle c)"
  with small have "x = u" by simp
  moreover from small have "\<not> isspace u" by (auto simp: isspace_def latin1_upper_def Let_def)
  moreover from small have "\<not> isspace c" by (auto simp: isspace_def latin1_small_def Let_def)
  ultimately show ?thesis by simp
next
  case same
  assume "x \<in> set (latin1_totitle c)"
  with same show ?thesis by simp
qed

lemma latin1_totitle_hd: "hd (latin1_totitle c) \<noteq> CHR ''n''"
proof (cases c rule: latin1_totitle_cases)
  case eszett
  then show ?thesis by simp
next
  case (small u)
  have "latin1_small (CHR ''n'')" by (simp add: latin1_small_def)
  with small upper_not_small [of u] show ?thesis by auto
next
  case same
  have "latin1_small (CHR ''n'')" by (simp add: latin1_small_def)
  with same show ?thesis by auto
qed

lemma title_latin1_from_Cons:
  "title_latin1_from p (c # s) = saida p c @ title_latin1_from (latin1_cased c) s"
  by (simp add: saida_def)

lemma saida_nonempty: "saida p c \<noteq> []"
  by (simp add: saida_def latin1_totitle_nonempty)

lemma saida_isspace: "x \<in> set (saida p c) \<Longrightarrow> isspace x = isspace c"
  by (cases p) (simp_all add: saida_def latin1_lower_isspace latin1_totitle_isspace)

lemma saida_cased: "latin1_cased (last (saida p c)) = latin1_cased c"
  by (cases p) (simp_all add: saida_def latin1_lower_cased latin1_totitle_cased)

lemma saida_fixed: "title_latin1_from p (saida p c) = saida p c"
proof (cases p)
  case True
  then show ?thesis by (simp add: saida_def latin1_lower_idem)
next
  case False
  then show ?thesis using latin1_totitle_fixed [of c] by (simp add: saida_def)
qed

lemma title_latin1_from_append:
  "title_latin1_from p (xs @ ys) =
     title_latin1_from p xs
       @ title_latin1_from (if xs = [] then p else latin1_cased (last xs)) ys"
  by (induction xs arbitrary: p) simp_all

lemma title_latin1_from_idem:
  "title_latin1_from p (title_latin1_from p s) = title_latin1_from p s"
proof (induction s arbitrary: p)
  case Nil
  show ?case by simp
next
  case (Cons c s)
  have "title_latin1_from p (saida p c @ title_latin1_from (latin1_cased c) s) =
          title_latin1_from p (saida p c)
            @ title_latin1_from (latin1_cased (last (saida p c)))
                (title_latin1_from (latin1_cased c) s)"
    by (simp only: title_latin1_from_append saida_nonempty if_False)
  also have "\<dots> = saida p c @ title_latin1_from (latin1_cased c) s"
    by (simp only: saida_fixed saida_cased Cons.IH)
  finally show ?case by (simp only: title_latin1_from_Cons)
qed

lemma title_latin1_from_nonempty: "s \<noteq> [] \<Longrightarrow> title_latin1_from p s \<noteq> []"
  by (cases s) (simp_all only: title_latin1_from_Cons append_is_Nil_conv saida_nonempty,
                simp_all)

lemma title_latin1_from_hd:
  assumes "s \<noteq> []"
  shows "isspace (hd (title_latin1_from p s)) = isspace (hd s)"
proof -
  from assms obtain c t where s: "s = c # t" by (cases s) simp_all
  have "hd (title_latin1_from p s) = hd (saida p c)"
    unfolding s title_latin1_from_Cons using saida_nonempty [of p c] by simp
  moreover have "hd (saida p c) \<in> set (saida p c)"
    using saida_nonempty by (rule hd_in_set)
  ultimately show ?thesis using saida_isspace [of "hd (saida p c)" p c] s by simp
qed

lemma title_latin1_from_last:
  "s \<noteq> [] \<Longrightarrow> isspace (last (title_latin1_from p s)) = isspace (last s)"
proof (induction s arbitrary: p)
  case Nil
  then show ?case by simp
next
  case (Cons c s)
  show ?case
  proof (cases "s = []")
    case True
    have "last (saida p c) \<in> set (saida p c)"
      using saida_nonempty by (rule last_in_set)
    then have "isspace (last (saida p c)) = isspace c" by (rule saida_isspace)
    with True show ?thesis by (simp add: saida_def [symmetric])
  next
    case False
    then have "title_latin1_from (latin1_cased c) s \<noteq> []"
      by (rule title_latin1_from_nonempty)
    then have "last (title_latin1_from p (c # s)) = last (title_latin1_from (latin1_cased c) s)"
      by (simp only: title_latin1_from_Cons last_append if_False)
    with Cons.IH [OF False] False show ?thesis by simp
  qed
qed

lemma title_latin1_idem: "title_latin1 (title_latin1 s) = title_latin1 s"
  by (simp only: title_latin1_def title_latin1_from_idem)

lemma title_latin1_not_nan: "title_latin1 s \<noteq> ''nan''"
proof (cases s)
  case Nil
  then show ?thesis by (simp add: title_latin1_def)
next
  case (Cons c t)
  have "hd (title_latin1 s) = hd (latin1_totitle c)"
    using latin1_totitle_nonempty [of c] by (simp add: Cons title_latin1_def)
  with latin1_totitle_hd [of c] have "hd (title_latin1 s) \<noteq> CHR ''n''" by simp
  then show ?thesis by auto
qed

lemma limpo_title_latin1:
  assumes "limpo s" and "title_latin1 s \<noteq> ''None''"
  shows "limpo (title_latin1 s)"
proof -
  from assms(1) have s: "s \<noteq> []" "\<not> isspace (hd s)" "\<not> isspace (last s)"
    by (simp_all add: limpo_def)
  from s(1) have "title_latin1 s \<noteq> []"
    unfolding title_latin1_def by (rule title_latin1_from_nonempty)
  moreover from s have "\<not> isspace (hd (title_latin1 s))"
    unfolding title_latin1_def by (simp add: title_latin1_from_hd)
  moreover from s have "\<not> isspace (last (title_latin1 s))"
    unfolding title_latin1_def by (simp add: title_latin1_from_last)
  ultimately show ?thesis using assms(2) title_latin1_not_nan [of s]
    by (simp add: limpo_def)
qed

lemma title_latin1_exemplos:
  "title_latin1 ''NONE'' = ''None''"
  "title_latin1 ''None'' = ''None''"
  "title_latin1 ''ubs centro'' = ''Ubs Centro''"
  by (simp_all add: title_latin1_def latin1_totitle_def latin1_lower_def latin1_cased_def
        latin1_upper_def latin1_small_def char_of_nat_eq)

lemma renormalisation_none:
  assumes "nome r = ''None''"
  shows "processar_linha title (reapresentar row r) = None"
proof -
  let ?row' = "reapresentar row r"
  have "?row' ''NO_FANTASIA'' = Some (Str ''None'')"
    using assms by (simp add: reapresentar_def)
  then have "\<not> qualifica ?row' ''NO_FANTASIA''" by (simp add: qualifica_def strip_None)
  then have "campo ?row' [''NO_FANTASIA'', ''NOFANTASIA''] ''''
               = campo ?row' [''NOFANTASIA''] ''''"
    by (simp only: campo_step) simp
  also have "\<dots> = ''''"
    by (rule campo_all_absent) (simp add: reapresentar_def)
  finally have f: "campo ?row' [''NO_FANTASIA'', ''NOFANTASIA''] '''' = ''''" .
  have g: "campo ?row' [''NO_RAZAO_SOCIAL'', ''NO_RAZAO_SOCIAL_'', ''NORAZAOSOCIAL''] '''' = ''''"
    by (rule campo_all_absent) (simp add: reapresentar_def)
  from f g show ?thesis by (simp only: processar_linha_None) simp
qed

lemma nome_emitido:
  assumes "processar_linha title row = Some r"
  shows "\<exists>n. limpo n \<and> nome r = title n"
proof -
  let ?f = "campo row [''NO_FANTASIA'', ''NOFANTASIA''] ''''"
  let ?z = "campo row [''NO_RAZAO_SOCIAL'', ''NO_RAZAO_SOCIAL_'', ''NORAZAOSOCIAL''] ''''"
  let ?n = "if ?f = '''' then ?z else ?f"
  from assms have "processar_linha title row \<noteq> None" by simp
  then have "\<not> (?f = '''' \<and> ?z = '''')" by (simp only: processar_linha_None) blast
  then have "?n \<noteq> ''''" by auto
  moreover have "?f = '''' \<or> limpo ?f" "?z = '''' \<or> limpo ?z"
    by (rule campo_vazio_ou_limpo)+
  ultimately have "limpo ?n" by auto
  moreover have "nome r = title ?n"
    using processar_linha_Some(1) [OF assms] by (simp add: registro_de_def del: campo.simps)
  ultimately show ?thesis by blast
qed

text \<open>
  C9, amended. Equal tables give equal record sequences, whatever the region argument:
  \<open>processar_df\<close> reads nothing but the table. Normalising the raw representation of
  an emitted record \<open>r\<close> gives \<open>r\<close> again, field for field, unless the name of \<open>r\<close>
  is \<open>None\<close>; a record with that name is skipped by the second normalisation.
\<close>

theorem renormalisation_fixed_point:
  assumes "processar_linha title_latin1 row = Some r"
  shows "(nome r \<noteq> ''None'' \<longrightarrow> processar_linha title_latin1 (reapresentar row r) = Some r)
       \<and> (nome r = ''None'' \<longrightarrow> processar_linha title_latin1 (reapresentar row r) = None)
       \<and> (df = df' \<longrightarrow> processar_df upper title df uf = processar_df upper title df' uf')"
proof -
  have 1: "processar_linha title_latin1 (reapresentar row r) = Some r" if "nome r \<noteq> ''None''"
  proof -
    from nome_emitido [OF assms] obtain n where n: "limpo n" "nome r = title_latin1 n"
      by blast
    from n that have l: "limpo (nome r)" by (simp add: limpo_title_latin1)
    from n have t: "title_latin1 (nome r) = nome r" by (simp add: title_latin1_idem)
    from renormalisation_geral [OF assms l t] show ?thesis .
  qed
  have 2: "processar_linha title_latin1 (reapresentar row r) = None" if "nome r = ''None''"
    using that by (rule renormalisation_none)
  have 3: "processar_df upper title df uf = processar_df upper title df' uf'" if "df = df'"
    using that by (simp only: processar_df_def)
  from 1 2 3 show ?thesis by blast
qed

lemma processar_linha_none:
  "processar_linha title_latin1 linha_none = Some registro_none"
proof -
  have "registro_de title_latin1 linha_none = registro_none"
    by (simp add: registro_de_def linha_none_def registro_none_def strip_def isspace_def
          isdigit_def zfill_def dict_get_def TP_UNIDADE_MAP_def title_latin1_exemplos)
  then show ?thesis
    by (simp only: processar_linha_unfold)
       (simp add: linha_none_def strip_def isspace_def)
qed

lemma processar_linha_ubs:
  "processar_linha title_latin1 linha_ubs = Some registro_ubs"
proof -
  have "registro_de title_latin1 linha_ubs = registro_ubs"
    by (simp add: registro_de_def linha_ubs_def registro_ubs_def strip_def isspace_def
          isdigit_def zfill_def dict_get_def TP_UNIDADE_MAP_def title_latin1_exemplos
          eval_nat_numeral)
  then show ?thesis
    by (simp only: processar_linha_unfold)
       (simp add: linha_ubs_def strip_def isspace_def)
qed

text \<open>
  C9, as stated, fails: \<open>NONE\<close> is title-cased to \<open>None\<close>, which field resolution
  takes for a null. The row \<open>linha_none\<close> is emitted as \<open>registro_none\<close>, whose fields
  are all in normalised form (seven-character code, title-cased name, empty region code,
  postal code and phone), and normalising that record's raw representation skips it.
\<close>

theorem renormalisation_counterexample:
  "processar_linha title_latin1 linha_none = Some registro_none
   \<and> title_latin1 (nome registro_none) = nome registro_none
   \<and> processar_linha title_latin1 (reapresentar linha_none registro_none) = None"
proof -
  have t: "title_latin1 (nome registro_none) = nome registro_none"
    by (simp add: registro_none_def title_latin1_exemplos)
  have "campo (reapresentar linha_none registro_none) [''NO_FANTASIA'', ''NOFANTASIA''] ''''
          = ''''"
    by (simp add: reapresentar_def registro_none_def strip_def isspace_def)
  moreover have "campo (reapresentar linha_none registro_none)
          [''NO_RAZAO_SOCIAL'', ''NO_RAZAO_SOCIAL_'', ''NORAZAOSOCIAL''] '''' = ''''"
    by (simp add: reapresentar_def)
  ultimately have "processar_linha title_latin1 (reapresentar linha_none registro_none) = None"
    by (simp only: processar_linha_None) simp
  with processar_linha_none t show ?thesis by blast
qed

theorem renormalisation_fixed_point_witness:
  "processar_linha title_latin1 (reapresentar linha_ubs registro_ubs) = Some registro_ubs
   \<and> processar_linha title_latin1 (reapresentar linha_none registro_none) = None"
proof -
  have u: "nome registro_ubs \<noteq> ''None''" by (simp add: registro_ubs_def)
  have n: "nome registro_none = ''None''" by (simp add: registro_none_def)
  from renormalisation_fixed_point [OF processar_linha_ubs] u
  have 1: "processar_linha title_latin1 (reapresentar linha_ubs registro_ubs)
             = Some registro_ubs"
    by blast
  from renormalisation_fixed_point [OF processar_linha_none] n
  have 2: "processar_linha title_latin1 (reapresentar linha_none registro_none) = None"
    by blast
  from 1 2 show ?thesis by (rule conjI)
qed

end
